theory Spec2Isabelle
  imports Main
begin

section \<open>Python values and exceptions\<close>

text \<open>
  The client of \<^verbatim>\<open>examples/python/client.py\<close> sends and receives JSON through the
  \<^verbatim>\<open>requests\<close> library. A JSON document, once parsed by Python, is one of the values
  below. A \<^verbatim>\<open>str\<close> is the list of its characters, each a \<open>char\<close> (a code point below
  256); a \<^verbatim>\<open>dict\<close> is the list of its items in insertion order, looked up by key; a
  \<^verbatim>\<open>float\<close> is a mantissa and a binary exponent, an infinity (with its sign) or NaN.
\<close>

datatype pyfloat = Finite int int | Infinity bool | NaN

datatype pyval =
    PNone
  | PBool bool
  | PInt int
  | PFloat pyfloat
  | PStr string
  | PList "pyval list"
  | PDict "(string \<times> pyval) list"

text \<open>
  The exceptions that can come up. \<open>HTTPError\<close> carries the status code of the response it
  was raised for, \<open>KeyError\<close> the missing key. \<open>RequestException\<close> stands for every
  exception the session raises by itself instead of handing back a response
  (\<^verbatim>\<open>MissingSchema\<close>, \<^verbatim>\<open>InvalidURL\<close>, \<^verbatim>\<open>InvalidJSONError\<close>, \<^verbatim>\<open>ConnectionError\<close>,
  \<^verbatim>\<open>Timeout\<close>, \<^verbatim>\<open>TooManyRedirects\<close>). \<open>ValueError\<close>, \<open>UnicodeEncodeError\<close> and
  \<open>OSError\<close> are what formatting a value and writing to standard output can raise.
\<close>

datatype error =
    HTTPError int
  | JSONDecodeError
  | RequestException
  | KeyError string
  | TypeError
  | AttributeError
  | ValueError
  | UnicodeEncodeError
  | OSError

definition bind_err :: "error + 'a \<Rightarrow> ('a \<Rightarrow> error + 'b) \<Rightarrow> error + 'b" where
  "bind_err m f = (case m of Inl e \<Rightarrow> Inl e | Inr x \<Rightarrow> f x)"

text \<open>\<^verbatim>\<open>s.rstrip(chars)\<close>: the longest suffix made of characters of \<open>chars\<close> is removed.\<close>

definition py_rstrip :: "string \<Rightarrow> string \<Rightarrow> string" where
  "py_rstrip s chars = rev (dropWhile (\<lambda>c. c \<in> set chars) (rev s))"

section \<open>The session, as the client calls it\<close>

datatype http_verb = GET | POST

text \<open>
  One call of \<^verbatim>\<open>session.get\<close> or \<^verbatim>\<open>session.post\<close>: which of the two, the URL string and
  the \<^verbatim>\<open>json\<close> argument the client passes, and the headers the session carries. This is
  what the client hands to the library, not what goes over the network.
\<close>

record session_call =
  sc_verb :: http_verb
  sc_url :: string
  sc_headers :: "(string \<times> string) list"
  sc_json :: "pyval option"

text \<open>
  A response as the client reads it: its status code, and what \<^verbatim>\<open>response.json()\<close> finds in
  the body (\<open>None\<close> when the body is not a JSON document, where \<^verbatim>\<open>json()\<close> raises).
\<close>

record response =
  status_code :: int
  json_body :: "pyval option"

text \<open>
  The \<^verbatim>\<open>requests\<close> library, with the network and the remote service behind it, is not
  part of the repository: it is a parameter. From the state of everything outside the
  client and a call it gives the outcome of the call, an exception raised or the response
  handed back, and the next state. Whether it sends one HTTP request, none or several for
  a call is up to it. A run of the client records the calls it made on the session, in
  order.
\<close>

type_synonym 'w library = "'w \<Rightarrow> session_call \<Rightarrow> (error + response) \<times> 'w"

record 'w trace =
  calls :: "session_call list"
  world :: 'w

record client =
  base_url :: string
  session_headers :: "(string \<times> string) list"

text \<open>
  \<^verbatim>\<open>SnowRailClient.__init__(base_url="http://localhost:3000")\<close>; the argument is \<open>None\<close> when
  the caller leaves it out. \<open>session_headers\<close> holds the entries the constructor writes
  onto the session's headers.
\<close>

definition SnowRailClient_init :: "string option \<Rightarrow> client" where
  "SnowRailClient_init base_url_arg =
     (let b = (case base_url_arg of None \<Rightarrow> ''http://localhost:3000'' | Some u \<Rightarrow> u)
      in \<lparr>base_url = py_rstrip b ''/'',
          session_headers = [(''Content-Type'', ''application/json''),
                             (''User-Agent'', ''SnowRail-Python-Client/1.0'')]\<rparr>)"

text \<open>
  \<^verbatim>\<open>self.session.post(endpoint, json=body)\<close> and \<^verbatim>\<open>self.session.get(endpoint)\<close>: the call
  is made once, and its outcome is the library's.
\<close>

definition session_request ::
  "'w library \<Rightarrow> client \<Rightarrow> http_verb \<Rightarrow> string \<Rightarrow> pyval option \<Rightarrow> 'w trace
     \<Rightarrow> (error + response) \<times> 'w trace" where
  "session_request lib self v endpoint body n =
     (let made = \<lparr>sc_verb = v, sc_url = endpoint, sc_headers = session_headers self,
                  sc_json = body\<rparr>;
          (outcome, w') = lib (world n) made
      in (outcome, \<lparr>calls = calls n @ [made], world = w'\<rparr>))"

definition session_post ::
  "'w library \<Rightarrow> client \<Rightarrow> string \<Rightarrow> pyval \<Rightarrow> 'w trace \<Rightarrow> (error + response) \<times> 'w trace" where
  "session_post lib self endpoint body = session_request lib self POST endpoint (Some body)"

definition session_get ::
  "'w library \<Rightarrow> client \<Rightarrow> string \<Rightarrow> 'w trace \<Rightarrow> (error + response) \<times> 'w trace" where
  "session_get lib self endpoint = session_request lib self GET endpoint None"

text \<open>
  \<^verbatim>\<open>Response.raise_for_status()\<close> of \<^verbatim>\<open>requests\<close>: an \<open>HTTPError\<close> for a client error (4xx)
  or a server error (5xx) status, nothing for any other status.
\<close>

definition raise_for_status :: "response \<Rightarrow> error + unit" where
  "raise_for_status r =
     (if 400 \<le> status_code r \<and> status_code r < 600 then Inl (HTTPError (status_code r))
      else Inr ())"

definition response_json :: "response \<Rightarrow> error + pyval" where
  "response_json r = (case json_body r of None \<Rightarrow> Inl JSONDecodeError | Some v \<Rightarrow> Inr v)"

section \<open>The methods of SnowRailClient\<close>

definition validate_url ::
  "'w library \<Rightarrow> client \<Rightarrow> string \<Rightarrow> int option \<Rightarrow> 'w trace \<Rightarrow> (error + pyval) \<times> 'w trace" where
  "validate_url lib self target amount_arg n =
     (let amount = (case amount_arg of None \<Rightarrow> 100 | Some a \<Rightarrow> a);
          endpoint = base_url self @ ''/v1/sentinel/validate'';
          (r, n') = session_post lib self endpoint
                      (PDict [(''url'', PStr target), (''amount'', PInt amount)]) n
      in (bind_err r (\<lambda>response.
            bind_err (raise_for_status response) (\<lambda>_. response_json response)), n'))"

definition create_intent ::
  "'w library \<Rightarrow> client \<Rightarrow> string \<Rightarrow> int \<Rightarrow> string \<Rightarrow> string \<Rightarrow> 'w trace
     \<Rightarrow> (error + pyval) \<times> 'w trace" where
  "create_intent lib self target amount sender recipient n =
     (let endpoint = base_url self @ ''/v1/payments/x402/intent'';
          (r, n') = session_post lib self endpoint
                      (PDict [(''url'', PStr target), (''amount'', PInt amount),
                              (''sender'', PStr sender), (''recipient'', PStr recipient)]) n
      in (bind_err r (\<lambda>response.
            bind_err (raise_for_status response) (\<lambda>_. response_json response)), n'))"

definition get_authorization ::
  "'w library \<Rightarrow> client \<Rightarrow> string \<Rightarrow> 'w trace \<Rightarrow> (error + pyval) \<times> 'w trace" where
  "get_authorization lib self intent_id n =
     (let endpoint = base_url self @ ''/v1/payments/x402/sign'';
          (r, n') = session_post lib self endpoint (PDict [(''intentId'', PStr intent_id)]) n
      in (bind_err r (\<lambda>response.
            bind_err (raise_for_status response) (\<lambda>_. response_json response)), n'))"

definition confirm_payment ::
  "'w library \<Rightarrow> client \<Rightarrow> string \<Rightarrow> string \<Rightarrow> 'w trace \<Rightarrow> (error + pyval) \<times> 'w trace" where
  "confirm_payment lib self intent_id signature n =
     (let endpoint = base_url self @ ''/v1/payments/x402/confirm'';
          (r, n') = session_post lib self endpoint
                      (PDict [(''intentId'', PStr intent_id), (''signature'', PStr signature)]) n
      in (bind_err r (\<lambda>response.
            bind_err (raise_for_status response) (\<lambda>_. response_json response)), n'))"

definition get_intent_status ::
  "'w library \<Rightarrow> client \<Rightarrow> string \<Rightarrow> 'w trace \<Rightarrow> (error + pyval) \<times> 'w trace" where
  "get_intent_status lib self intent_id n =
     (let endpoint = base_url self @ ''/v1/payments/x402/status/'' @ intent_id;
          (r, n') = session_get lib self endpoint n
      in (bind_err r (\<lambda>response.
            bind_err (raise_for_status response) (\<lambda>_. response_json response)), n'))"

definition health_check ::
  "'w library \<Rightarrow> client \<Rightarrow> 'w trace \<Rightarrow> (error + pyval) \<times> 'w trace" where
  "health_check lib self n =
     (let endpoint = base_url self @ ''/health'';
          (r, n') = session_get lib self endpoint n
      in (bind_err r (\<lambda>response.
            bind_err (raise_for_status response) (\<lambda>_. response_json response)), n'))"

text \<open>One call of a public method of the client, with its arguments.\<close>

datatype call =
    Validate_url string "int option"
  | Create_intent string int string string
  | Get_authorization string
  | Confirm_payment string string
  | Get_intent_status string
  | Health_check

fun invoke :: "'w library \<Rightarrow> client \<Rightarrow> call \<Rightarrow> 'w trace \<Rightarrow> (error + pyval) \<times> 'w trace" where
  "invoke lib self (Validate_url target amount_arg) n = validate_url lib self target amount_arg n"
| "invoke lib self (Create_intent target amount sender recipient) n =
     create_intent lib self target amount sender recipient n"
| "invoke lib self (Get_authorization intent_id) n = get_authorization lib self intent_id n"
| "invoke lib self (Confirm_payment intent_id signature) n =
     confirm_payment lib self intent_id signature n"
| "invoke lib self (Get_intent_status intent_id) n = get_intent_status lib self intent_id n"
| "invoke lib self Health_check n = health_check lib self n"

text \<open>A library that hands back the same response for every call and changes nothing.\<close>

definition const_library :: "response \<Rightarrow> 'w library" where
  "const_library r w made = (Inr r, w)"

text \<open>A library that hands back the same response for every call and counts the calls.\<close>

definition counting_library :: "response \<Rightarrow> nat library" where
  "counting_library r w made = (Inr r, Suc w)"

text \<open>A library that raises on every call and changes nothing.\<close>

definition raising_library :: "'w library" where
  "raising_library w made = (Inl RequestException, w)"


section \<open>What the requests library does with a call\<close>

text \<open>
  The library is not part of the repository. This section writes down what its source
  (requests 2.32: \<^verbatim>\<open>sessions.py\<close>, \<^verbatim>\<open>models.py\<close>, \<^verbatim>\<open>adapters.py\<close>; urllib3:
  \<^verbatim>\<open>util/url.py\<close>) does with a call in a few cases, and leaves every other case to a
  parameter.

  An HTTP request as it goes out: the verb, the request target of the request line (path,
  and query if any) and the JSON document in the body. Headers and the host it goes to
  are left out. A response as it comes back: the status, the \<^verbatim>\<open>Location\<close> header and what
  \<^verbatim>\<open>json()\<close> finds in the body.
\<close>

record wire_request =
  wire_verb :: http_verb
  wire_target :: string
  wire_json :: "pyval option"

record wire_response =
  wire_status :: int
  wire_location :: "string option"
  wire_json_body :: "pyval option"

text \<open>
  What lies outside the client and the library: the HTTP requests issued so far, and the
  state of the remote end.
\<close>

record 'n wire =
  issued :: "wire_request list"
  remote :: 'n

text \<open>
  What the library meets: \<open>network\<close> answers a request (\<open>None\<close> when no response
  arrives or its body cannot be read); \<open>proxied\<close> tells whether the environment or the
  session routes a URL through a proxy; \<open>dumps_fails\<close> tells whether \<^verbatim>\<open>json.dumps\<close>
  raises on a body (an integer beyond the interpreter's digit limit).
\<close>

record 'n http_env =
  network :: "'n \<Rightarrow> wire_request \<Rightarrow> wire_response option \<times> 'n"
  proxied :: "string \<Rightarrow> bool"
  dumps_fails :: "pyval \<Rightarrow> bool"

definition lower_alnum :: "char \<Rightarrow> bool" where
  "lower_alnum c = (c \<in> set ''abcdefghijklmnopqrstuvwxyz0123456789'')"

definition host_char :: "char \<Rightarrow> bool" where
  "host_char c = (lower_alnum c \<or> c = CHR ''-'' \<or> c = CHR ''.'')"

definition digit_char :: "char \<Rightarrow> bool" where
  "digit_char c = (c \<in> set ''0123456789'')"

definition name_char :: "char \<Rightarrow> bool" where
  "name_char c =
     (c \<in> set ''ABCDEFGHIJKLMNOPQRSTUVWXYZabcdefghijklmnopqrstuvwxyz0123456789-_~'')"

definition path_char :: "char \<Rightarrow> bool" where
  "path_char c = (name_char c \<or> c = CHR ''/'')"

text \<open>
  A plain authority: a host of lower-case letters, digits, \<open>-\<close> and \<open>.\<close> that starts with a
  letter or digit, and then nothing or \<open>:\<close> and a port of one to four digits.
\<close>

definition plain_authority :: "string \<Rightarrow> bool" where
  "plain_authority a =
     (let host = takeWhile (\<lambda>c. c \<noteq> CHR '':'') a;
          port = dropWhile (\<lambda>c. c \<noteq> CHR '':'') a
      in host \<noteq> [] \<and> lower_alnum (hd host) \<and> list_all host_char host
         \<and> (port = [] \<or> (tl port \<noteq> [] \<and> length (tl port) \<le> 4 \<and> list_all digit_char (tl port))))"

text \<open>
  A plain path: empty, or led by one \<open>/\<close> and not by \<open>//\<close>, made of letters, digits,
  \<open>-\<close>, \<open>_\<close>, \<open>~\<close> and \<open>/\<close>. It has no dot segment, nothing to percent-encode and no query.
\<close>

definition plain_path :: "string \<Rightarrow> bool" where
  "plain_path p =
     (list_all path_char p \<and> (p = [] \<or> hd p = CHR ''/'') \<and> take 2 p \<noteq> ''//'')"

text \<open>
  The request target the library sends for a plain URL, that is \<open>http://\<close> or \<open>https://\<close>,
  a plain authority, a plain path and then nothing or \<open>#\<close> and a fragment of letters,
  digits, \<open>-\<close>, \<open>_\<close> and \<open>~\<close>: \<^verbatim>\<open>prepare_url\<close> leaves such a URL as it is, and \<^verbatim>\<open>path_url\<close>
  takes its path, or \<open>/\<close> when the path is empty; the fragment is not sent. \<open>None\<close> for
  every other URL, on which this definition says nothing.
\<close>

definition plain_target :: "string \<Rightarrow> string option" where
  "plain_target u =
     (case (if take 7 u = ''http://'' then Some (drop 7 u)
            else if take 8 u = ''https://'' then Some (drop 8 u) else None) of
        None \<Rightarrow> None
      | Some rest \<Rightarrow>
          (let authority = takeWhile (\<lambda>c. c \<noteq> CHR ''/'' \<and> c \<noteq> CHR ''#'') rest;
               tail = dropWhile (\<lambda>c. c \<noteq> CHR ''/'' \<and> c \<noteq> CHR ''#'') rest;
               path = takeWhile (\<lambda>c. c \<noteq> CHR ''#'') tail;
               fragment = drop 1 (dropWhile (\<lambda>c. c \<noteq> CHR ''#'') tail)
           in if plain_authority authority \<and> plain_path path \<and> list_all name_char fragment
              then Some (if path = [] then ''/'' else path) else None))"

text \<open>
  \<^verbatim>\<open>Response.is_redirect\<close> and the loop of \<^verbatim>\<open>resolve_redirects\<close>: a response is followed
  when its status is 301, 302, 303, 307 or 308 and it has a \<^verbatim>\<open>Location\<close> header that is
  not empty (\<^verbatim>\<open>allow_redirects\<close> is on for \<^verbatim>\<open>get\<close> and \<^verbatim>\<open>post\<close>).
\<close>

definition followed :: "wire_response \<Rightarrow> bool" where
  "followed r =
     (wire_status r \<in> {301, 302, 303, 307, 308}
      \<and> (case wire_location r of None \<Rightarrow> False | Some loc \<Rightarrow> loc \<noteq> []))"

text \<open>
  \<^verbatim>\<open>rebuild_method\<close>: after a 303 or a 302 the next request is a GET, after a 301 a POST
  becomes a GET, and a 307 or 308 keeps the verb.
\<close>

definition redirect_verb :: "int \<Rightarrow> http_verb \<Rightarrow> http_verb" where
  "redirect_verb status v =
     (if status = 303 then GET else if status = 302 then GET
      else if status = 301 \<and> v = POST then GET else v)"

definition handed_back :: "wire_response \<Rightarrow> response" where
  "handed_back r = \<lparr>status_code = wire_status r, json_body = wire_json_body r\<rparr>"

text \<open>
  The second request of \<^verbatim>\<open>resolve_redirects\<close>, after a first request \<open>first\<close> was answered
  by a followed response \<open>r1\<close>: when the location is a plain URL that is not proxied and
  the second request is answered by a response that is not followed, both requests are
  sent, the second without a body unless the status was 307 or 308, and the second
  response is handed back. \<open>None\<close> in every other case.
\<close>

definition redirected ::
  "'n http_env \<Rightarrow> 'n wire \<Rightarrow> session_call \<Rightarrow> wire_request \<Rightarrow> wire_response \<Rightarrow> 'n
     \<Rightarrow> ((error + response) \<times> 'n wire) option" where
  "redirected env w made first r1 n1 =
     (case wire_location r1 of
        None \<Rightarrow> None
      | Some loc \<Rightarrow>
          (case plain_target loc of
             None \<Rightarrow> None
           | Some t2 \<Rightarrow>
               if proxied env loc then None
               else
                 (let second = \<lparr>wire_verb = redirect_verb (wire_status r1) (sc_verb made),
                                 wire_target = t2,
                                 wire_json = (if wire_status r1 = 307 \<or> wire_status r1 = 308
                                              then sc_json made else None)\<rparr>
                  in (case network env n1 second of
                        (None, n2) \<Rightarrow> None
                      | (Some r2, n2) \<Rightarrow>
                          if followed r2 then None
                          else Some (Inr (handed_back r2),
                                     \<lparr>issued = issued w @ [first, second], remote = n2\<rparr>)))))"

definition bracket_free :: "string \<Rightarrow> bool" where
  "bracket_free u = (CHR ''['' \<notin> set u \<and> CHR '']'' \<notin> set u)"

text \<open>
  What \<^verbatim>\<open>Session.request\<close> does with a call, in the cases written down here; \<open>None\<close> in
  every other case.
  \<^item> A URL without a colon has no scheme: \<^verbatim>\<open>prepare_url\<close> raises (\<^verbatim>\<open>MissingSchema\<close> or
    \<^verbatim>\<open>InvalidURL\<close>) and nothing is sent.
  \<^item> A body that \<^verbatim>\<open>json.dumps\<close> cannot serialise: preparing the request raises (the URL's
    error or \<^verbatim>\<open>InvalidJSONError\<close>) and nothing is sent.
  These two hold for a URL without square brackets; one with them can make the lookup of
  credentials raise first, and is left out.
  \<^item> A plain URL that is not proxied, answered by a response that is not followed: that
    one request is sent (verb of the call, target of the URL, body of the call) and the
    response is handed back.
  \<^item> The same, answered by a followed response: see \<open>redirected\<close>.
\<close>

definition known_outcome ::
  "'n http_env \<Rightarrow> 'n wire \<Rightarrow> session_call \<Rightarrow> ((error + response) \<times> 'n wire) option" where
  "known_outcome env w made =
     (if CHR '':'' \<notin> set (sc_url made) \<and> bracket_free (sc_url made)
      then Some (Inl RequestException, w)
      else if (case sc_json made of None \<Rightarrow> False | Some b \<Rightarrow> dumps_fails env b)
              \<and> bracket_free (sc_url made)
      then Some (Inl RequestException, w)
      else
        (case plain_target (sc_url made) of
           None \<Rightarrow> None
         | Some t \<Rightarrow>
             if proxied env (sc_url made) then None
             else
               (let first = \<lparr>wire_verb = sc_verb made, wire_target = t,
                              wire_json = sc_json made\<rparr>
                in (case network env (remote w) first of
                      (None, n1) \<Rightarrow> None
                    | (Some r1, n1) \<Rightarrow>
                        if followed r1 then redirected env w made first r1 n1
                        else Some (Inr (handed_back r1),
                                   \<lparr>issued = issued w @ [first], remote = n1\<rparr>)))))"

text \<open>
  The library as far as it is written down here: the known outcome where there is one, and
  \<open>rest\<close>, the library on every other case, elsewhere.
\<close>

definition requests_session :: "'n http_env \<Rightarrow> 'n wire library \<Rightarrow> 'n wire library" where
  "requests_session env rest w made =
     (case known_outcome env w made of Some outcome \<Rightarrow> outcome | None \<Rightarrow> rest w made)"

text \<open>
  The endpoint table of the specification (section 6): for a call, the verb, the path and
  the JSON body.
\<close>

fun table_verb :: "call \<Rightarrow> http_verb" where
  "table_verb (Get_intent_status intent_id) = GET"
| "table_verb Health_check = GET"
| "table_verb c = POST"

fun table_path :: "call \<Rightarrow> string" where
  "table_path (Validate_url target amount_arg) = ''/v1/sentinel/validate''"
| "table_path (Create_intent target amount sender recipient) = ''/v1/payments/x402/intent''"
| "table_path (Get_authorization intent_id) = ''/v1/payments/x402/sign''"
| "table_path (Confirm_payment intent_id signature) = ''/v1/payments/x402/confirm''"
| "table_path (Get_intent_status intent_id) = ''/v1/payments/x402/status/'' @ intent_id"
| "table_path Health_check = ''/health''"

fun table_body :: "call \<Rightarrow> pyval option" where
  "table_body (Validate_url target amount_arg) =
     Some (PDict [(''url'', PStr target),
                  (''amount'', PInt (case amount_arg of None \<Rightarrow> 100 | Some a \<Rightarrow> a))])"
| "table_body (Create_intent target amount sender recipient) =
     Some (PDict [(''url'', PStr target), (''amount'', PInt amount),
                  (''sender'', PStr sender), (''recipient'', PStr recipient)])"
| "table_body (Get_authorization intent_id) = Some (PDict [(''intentId'', PStr intent_id)])"
| "table_body (Confirm_payment intent_id signature) =
     Some (PDict [(''intentId'', PStr intent_id), (''signature'', PStr signature)])"
| "table_body (Get_intent_status intent_id) = None"
| "table_body Health_check = None"

text \<open>The intent id a call puts into its path, if it does.\<close>

fun path_argument :: "call \<Rightarrow> string" where
  "path_argument (Get_intent_status intent_id) = intent_id"
| "path_argument c = []"

text \<open>
  Examples: no proxy and no digit limit; a network that answers every request with
  status 200 and an empty JSON object; and a network that answers a POST with a 302 to
  \<open>http://localhost:3000/login\<close> and anything else with status 200.
\<close>

definition answer_ok :: "'n \<Rightarrow> wire_request \<Rightarrow> wire_response option \<times> 'n" where
  "answer_ok n rq =
     (Some \<lparr>wire_status = 200, wire_location = None, wire_json_body = Some (PDict [])\<rparr>, n)"

definition answer_redirect :: "'n \<Rightarrow> wire_request \<Rightarrow> wire_response option \<times> 'n" where
  "answer_redirect n rq =
     (if wire_verb rq = POST
      then Some \<lparr>wire_status = 302, wire_location = Some ''http://localhost:3000/login'',
                 wire_json_body = None\<rparr>
      else Some \<lparr>wire_status = 200, wire_location = None, wire_json_body = Some (PDict [])\<rparr>,
      n)"

definition never :: "'a \<Rightarrow> bool" where
  "never x = False"

definition direct_env ::
  "('n \<Rightarrow> wire_request \<Rightarrow> wire_response option \<times> 'n) \<Rightarrow> 'n http_env" where
  "direct_env net = \<lparr>network = net, proxied = never, dumps_fails = never\<rparr>"


text \<open>
  A plain base path, the part of a base URL after the authority: empty, or a plain path
  that does not end in \<open>/\<close>.
\<close>

definition plain_base_path :: "string \<Rightarrow> bool" where
  "plain_base_path bp = (plain_path bp \<and> (bp = [] \<or> last bp \<noteq> CHR ''/''))"

section \<open>Printing a validation result\<close>

text \<open>
  What the Python expressions of \<^verbatim>\<open>print_validation_result\<close> do on the values above:
  truth testing, \<^verbatim>\<open>d[key]\<close> and \<^verbatim>\<open>d.get(key, default)\<close> on a dict, \<^verbatim>\<open>v[key]\<close> with a
  string key on any value, iteration, and \<^verbatim>\<open>v.upper()\<close>.
\<close>

fun py_truthy :: "pyval \<Rightarrow> bool" where
  "py_truthy PNone = False"
| "py_truthy (PBool b) = b"
| "py_truthy (PInt i) = (i \<noteq> 0)"
| "py_truthy (PFloat (Finite m e)) = (m \<noteq> 0)"
| "py_truthy (PFloat (Infinity negative)) = True"
| "py_truthy (PFloat NaN) = True"
| "py_truthy (PStr s) = (s \<noteq> [])"
| "py_truthy (PList xs) = (xs \<noteq> [])"
| "py_truthy (PDict kvs) = (kvs \<noteq> [])"

definition dict_getitem :: "(string \<times> pyval) list \<Rightarrow> string \<Rightarrow> error + pyval" where
  "dict_getitem d k = (case map_of d k of None \<Rightarrow> Inl (KeyError k) | Some v \<Rightarrow> Inr v)"

definition dict_get :: "(string \<times> pyval) list \<Rightarrow> string \<Rightarrow> pyval \<Rightarrow> pyval" where
  "dict_get d k dflt = (case map_of d k of None \<Rightarrow> dflt | Some v \<Rightarrow> v)"

fun py_getitem :: "pyval \<Rightarrow> string \<Rightarrow> error + pyval" where
  "py_getitem (PDict kvs) k = dict_getitem kvs k"
| "py_getitem v k = Inl TypeError"

fun py_iter :: "pyval \<Rightarrow> error + pyval list" where
  "py_iter (PStr s) = Inr (map (\<lambda>c. PStr [c]) s)"
| "py_iter (PList xs) = Inr xs"
| "py_iter (PDict kvs) = Inr (map (\<lambda>kv. PStr (fst kv)) kvs)"
| "py_iter v = Inl TypeError"

text \<open>
  Standard output is the list of the lines written so far. A line is the list of the
  pieces an f-string puts together: literal text, a literal character beyond the range of
  \<open>char\<close> (by its code point), the text a value is formatted to, and the upper-cased form
  of a string.
\<close>

datatype piece = Lit string | Mark nat | Fmt pyval | Upper string

type_synonym stdout = "piece list list"

text \<open>
  Formatting a value and writing a line can fail, and whether they do is not decided by
  the function: \<^verbatim>\<open>f"{v}"\<close> raises \<^verbatim>\<open>ValueError\<close> for an integer with more digits than the
  interpreter's limit (alone or inside a list or dict), and \<^verbatim>\<open>print\<close> raises
  \<^verbatim>\<open>UnicodeEncodeError\<close> when the encoding of standard output has no code for a character
  of the line, and \<^verbatim>\<open>OSError\<close> or \<^verbatim>\<open>ValueError\<close> when standard output is broken or
  closed. The interpreter is a parameter: \<open>format_error\<close> gives the exception formatting a
  value raises, if any, and \<open>write_error\<close> the exception writing a line raises after the
  lines written so far, if any.
\<close>

record interpreter =
  format_error :: "pyval \<Rightarrow> error option"
  write_error :: "stdout \<Rightarrow> piece list \<Rightarrow> error option"

fun py_upper :: "pyval \<Rightarrow> error + piece" where
  "py_upper (PStr s) = Inr (Upper s)"
| "py_upper v = Inl AttributeError"

text \<open>A replacement field \<^verbatim>\<open>{v}\<close> of an f-string.\<close>

definition py_format :: "interpreter \<Rightarrow> pyval \<Rightarrow> error + piece" where
  "py_format env v = (case format_error env v of None \<Rightarrow> Inr (Fmt v) | Some e \<Rightarrow> Inl e)"

text \<open>\<^verbatim>\<open>print(line)\<close>: the line is written, or the exception of the write is raised.\<close>

definition print_line :: "interpreter \<Rightarrow> piece list \<Rightarrow> stdout \<Rightarrow> (error + unit) \<times> stdout" where
  "print_line env l out =
     (case write_error env out l of None \<Rightarrow> (Inr (), out @ [l]) | Some e \<Rightarrow> (Inl e, out))"

definition eval_expr :: "error + 'a \<Rightarrow> stdout \<Rightarrow> (error + 'a) \<times> stdout" where
  "eval_expr r out = (r, out)"

definition and_then ::
  "(stdout \<Rightarrow> (error + 'a) \<times> stdout) \<Rightarrow> ('a \<Rightarrow> stdout \<Rightarrow> (error + 'b) \<times> stdout)
     \<Rightarrow> stdout \<Rightarrow> (error + 'b) \<times> stdout" where
  "and_then m f out =
     (case m out of (Inl e, out') \<Rightarrow> (Inl e, out') | (Inr x, out') \<Rightarrow> f x out')"

primrec for_each ::
  "('a \<Rightarrow> stdout \<Rightarrow> (error + unit) \<times> stdout) \<Rightarrow> 'a list \<Rightarrow> stdout
     \<Rightarrow> (error + unit) \<times> stdout" where
  "for_each body [] out = (Inr (), out)"
| "for_each body (x # xs) out =
     (case body x out of (Inl e, out') \<Rightarrow> (Inl e, out') | (Inr u, out') \<Rightarrow> for_each body xs out')"

text \<open>The check mark and the cross the function prints, U+2713 and U+2717.\<close>

definition tick :: "bool \<Rightarrow> piece" where
  "tick b = (if b then Mark 0x2713 else Mark 0x2717)"

text \<open>
  The body of \<^verbatim>\<open>for reason in ...\<close> and of \<^verbatim>\<open>for warning in ...\<close>: the item is formatted,
  then the line is printed.
\<close>

definition print_item :: "interpreter \<Rightarrow> pyval \<Rightarrow> stdout \<Rightarrow> (error + unit) \<times> stdout" where
  "print_item env v =
     and_then (eval_expr (py_format env v)) (\<lambda>item. print_line env [Lit ''  - '', item])"

text \<open>
  The body of \<^verbatim>\<open>for check in result.get('checks', [])\<close>: \<^verbatim>\<open>check['passed']\<close> is read and
  tested, then the f-string reads and formats \<^verbatim>\<open>check['name']\<close>, reads and formats
  \<^verbatim>\<open>check['score']\<close>, and the line is printed.
\<close>

definition print_check :: "interpreter \<Rightarrow> pyval \<Rightarrow> stdout \<Rightarrow> (error + unit) \<times> stdout" where
  "print_check env check =
     and_then (eval_expr (py_getitem check ''passed'')) (\<lambda>passed.
     and_then (eval_expr (bind_err (py_getitem check ''name'') (py_format env))) (\<lambda>name.
     and_then (eval_expr (bind_err (py_getitem check ''score'') (py_format env))) (\<lambda>score.
       print_line env [Lit ''  '', tick (py_truthy passed), Lit '' '', name, Lit '': '',
                       score, Lit ''/100''])))"

definition print_validation_result ::
  "interpreter \<Rightarrow> (string \<times> pyval) list \<Rightarrow> stdout \<Rightarrow> (error + unit) \<times> stdout" where
  "print_validation_result env result =
     and_then (print_line env [Lit (CHR 0x0A # replicate 60 CHR ''='')]) (\<lambda>_.
     and_then (print_line env [Lit ''VALIDATION RESULT'']) (\<lambda>_.
     and_then (print_line env [Lit (replicate 60 CHR ''='')]) (\<lambda>_.
     and_then (eval_expr (bind_err (dict_getitem result ''url'') (py_format env))) (\<lambda>target.
     and_then (print_line env [Lit ''URL:         '', target]) (\<lambda>_.
     and_then (eval_expr (dict_getitem result ''canPay'')) (\<lambda>can_pay.
     and_then (print_line env [Lit ''Can Pay:     '', tick (py_truthy can_pay),
                               Lit (if py_truthy can_pay then '' YES'' else '' NO'')]) (\<lambda>_.
     and_then (eval_expr (bind_err (dict_getitem result ''trustScore'') (py_format env)))
       (\<lambda>trust_score.
     and_then (print_line env [Lit ''Trust Score: '', trust_score, Lit ''/100'']) (\<lambda>_.
     and_then (eval_expr (bind_err (dict_getitem result ''risk'') py_upper)) (\<lambda>risk.
     and_then (print_line env [Lit ''Risk:        '', risk]) (\<lambda>_.
     and_then (eval_expr (bind_err (dict_getitem result ''decision'') py_upper)) (\<lambda>decision.
     and_then (print_line env [Lit ''Decision:    '', decision]) (\<lambda>_.
     and_then (eval_expr (bind_err (dict_getitem result ''duration'') (py_format env)))
       (\<lambda>duration.
     and_then (print_line env [Lit ''Duration:    '', duration, Lit ''ms'']) (\<lambda>_.
     and_then (if py_truthy (dict_get result ''blockedReasons'' PNone)
               then and_then (print_line env [Lit (CHR 0x0A # ''Blocked Reasons:'')]) (\<lambda>_.
                    and_then (eval_expr (dict_getitem result ''blockedReasons'')) (\<lambda>reasons.
                    and_then (eval_expr (py_iter reasons)) (\<lambda>items.
                      for_each (print_item env) items)))
               else eval_expr (Inr ())) (\<lambda>_.
     and_then (if py_truthy (dict_get result ''warnings'' PNone)
               then and_then (print_line env [Lit (CHR 0x0A # ''Warnings:'')]) (\<lambda>_.
                    and_then (eval_expr (dict_getitem result ''warnings'')) (\<lambda>warnings.
                    and_then (eval_expr (py_iter warnings)) (\<lambda>items.
                      for_each (print_item env) items)))
               else eval_expr (Inr ())) (\<lambda>_.
     and_then (print_line env [Lit (CHR 0x0A # ''Security Checks:'')]) (\<lambda>_.
     and_then (eval_expr (py_iter (dict_get result ''checks'' (PList [])))) (\<lambda>checks.
     and_then (for_each (print_check env) checks) (\<lambda>_.
       print_line env [Lit (replicate 60 CHR ''='' @ [CHR 0x0A])]))))))))))))))))))))"

text \<open>
  The shape of a dictionary the function prints to the end: the six keys it reads with
  \<^verbatim>\<open>result[...]\<close>, strings under \<open>risk\<close> and \<open>decision\<close>, and under each key it reads
  with \<^verbatim>\<open>.get\<close> nothing, or something its loop can run over.
\<close>

definition required_keys :: "string list" where
  "required_keys = [''url'', ''canPay'', ''trustScore'', ''risk'', ''decision'', ''duration'']"

fun is_str :: "pyval \<Rightarrow> bool" where
  "is_str (PStr s) = True"
| "is_str v = False"

definition str_or_absent :: "(string \<times> pyval) list \<Rightarrow> string \<Rightarrow> bool" where
  "str_or_absent d k = (case map_of d k of None \<Rightarrow> True | Some v \<Rightarrow> is_str v)"

fun iterable :: "pyval \<Rightarrow> bool" where
  "iterable (PStr s) = True"
| "iterable (PList xs) = True"
| "iterable (PDict kvs) = True"
| "iterable v = False"

definition section_ok :: "(string \<times> pyval) list \<Rightarrow> string \<Rightarrow> bool" where
  "section_ok d k =
     (case map_of d k of None \<Rightarrow> True | Some v \<Rightarrow> \<not> py_truthy v \<or> iterable v)"

fun has_check_fields :: "pyval \<Rightarrow> bool" where
  "has_check_fields (PDict kvs) =
     (map_of kvs ''passed'' \<noteq> None \<and> map_of kvs ''name'' \<noteq> None \<and> map_of kvs ''score'' \<noteq> None)"
| "has_check_fields v = False"

definition checks_ok :: "(string \<times> pyval) list \<Rightarrow> bool" where
  "checks_ok d =
     (case map_of d ''checks'' of
        None \<Rightarrow> True
      | Some v \<Rightarrow> (case py_iter v of Inl e \<Rightarrow> False | Inr items \<Rightarrow> list_all has_check_fields items))"

definition has_required :: "(string \<times> pyval) list \<Rightarrow> bool" where
  "has_required d =
     (list_all (\<lambda>k. map_of d k \<noteq> None) required_keys
      \<and> str_or_absent d ''risk'' \<and> str_or_absent d ''decision'')"

text \<open>
  The values the function formats on a dictionary, and that the interpreter formats each
  of them: the values under \<open>url\<close>, \<open>trustScore\<close> and \<open>duration\<close>, the items of
  \<open>blockedReasons\<close> and of \<open>warnings\<close> where the value is truthy, and the \<open>name\<close> and the
  \<open>score\<close> of every check.
\<close>

definition field_formats :: "interpreter \<Rightarrow> (string \<times> pyval) list \<Rightarrow> string \<Rightarrow> bool" where
  "field_formats env d k =
     (case map_of d k of None \<Rightarrow> True | Some v \<Rightarrow> format_error env v = None)"

definition section_formats :: "interpreter \<Rightarrow> (string \<times> pyval) list \<Rightarrow> string \<Rightarrow> bool" where
  "section_formats env d k =
     (case map_of d k of
        None \<Rightarrow> True
      | Some v \<Rightarrow>
          \<not> py_truthy v
          \<or> (case py_iter v of
                Inl e \<Rightarrow> True
              | Inr items \<Rightarrow> list_all (\<lambda>item. format_error env item = None) items))"

fun check_formats :: "interpreter \<Rightarrow> pyval \<Rightarrow> bool" where
  "check_formats env (PDict kvs) = (field_formats env kvs ''name'' \<and> field_formats env kvs ''score'')"
| "check_formats env v = True"

definition checks_format :: "interpreter \<Rightarrow> (string \<times> pyval) list \<Rightarrow> bool" where
  "checks_format env d =
     (case map_of d ''checks'' of
        None \<Rightarrow> True
      | Some v \<Rightarrow> (case py_iter v of Inl e \<Rightarrow> True | Inr items \<Rightarrow> list_all (check_formats env) items))"

definition all_format :: "interpreter \<Rightarrow> (string \<times> pyval) list \<Rightarrow> bool" where
  "all_format env d =
     (field_formats env d ''url'' \<and> field_formats env d ''trustScore''
      \<and> field_formats env d ''duration'' \<and> section_formats env d ''blockedReasons''
      \<and> section_formats env d ''warnings'' \<and> checks_format env d)"

text \<open>
  Examples: an interpreter that formats every value, on a standard output that takes every
  line; one that formats every value, on a standard output that cannot encode the check
  mark and the cross; and one whose standard output is closed, where every write raises
  \<^verbatim>\<open>ValueError\<close>.
\<close>

definition plain_interpreter :: interpreter where
  "plain_interpreter = \<lparr>format_error = (\<lambda>v. None), write_error = (\<lambda>out l. None)\<rparr>"

fun is_mark :: "piece \<Rightarrow> bool" where
  "is_mark (Mark n) = True"
| "is_mark p = False"

definition ascii_interpreter :: interpreter where
  "ascii_interpreter =
     \<lparr>format_error = (\<lambda>v. None),
      write_error = (\<lambda>out l. if list_ex is_mark l then Some UnicodeEncodeError else None)\<rparr>"

definition closed_interpreter :: interpreter where
  "closed_interpreter =
     \<lparr>format_error = (\<lambda>v. None), write_error = (\<lambda>out l. Some ValueError)\<rparr>"

section \<open>The settlement confirmer\<close>

text \<open>
  The service behind \<open>/v1/payments/x402/confirm\<close> is not among the sources; only its
  caller \<open>confirm_payment\<close> is. The definitions of this section follow the specification.
\<close>

text \<open>
  Modelled from the spec: the status of a payment intent (section 3), which the missing
  ledger keeps: pending, authorized, confirmed, expired or failed.
\<close>

datatype intent_status = S_pending | S_authorized | S_confirmed | S_expired | S_failed

text \<open>
  Modelled from the spec: the PaymentIntent of section 3, stored by the missing ledger. Times
  are natural numbers.
\<close>

record intent =
  intent_ident :: string
  intent_url :: string
  intent_amount :: int
  intent_sender :: string
  intent_recipient :: string
  intent_state :: intent_status
  createdAt :: nat
  expiresAt :: nat

text \<open>
  Modelled from the spec: the Receipt of section 3, produced by the missing settlement.
\<close>

record receipt =
  txHash :: string
  explorerUrl :: string
  confirmedAt :: nat
  receipt_amount :: int
  receipt_recipient :: string

text \<open>
  Modelled from the spec: the error kinds of section 7 that the missing service reports.
\<close>

datatype ledger_error =
    ValidationError
  | NotFound
  | InvalidState
  | Expired
  | InvalidSignature
  | SettlementFailure

text \<open>
  Modelled from the spec: the Intent Ledger of section 4.2 and 9, a store of intents keyed by
  intent id. \<open>receipts\<close> keeps the receipt of each confirmed intent (section 3: created once,
  on the transition to confirmed), and \<open>settlements\<close> lists the settlements performed, in
  order.
\<close>

record ledger =
  intents :: "string \<rightharpoonup> intent"
  receipts :: "string \<rightharpoonup> receipt"
  settlements :: "(string \<times> receipt) list"

text \<open>
  Modelled from the spec: the fields the signing payload encodes (section 4.3): intent id,
  amount, sender, recipient and expiry.
\<close>

type_synonym signing_payload = "string \<times> int \<times> string \<times> string \<times> nat"

text \<open>
  Modelled from the spec: the expected signing payload, recomputed from the intent as the
  missing confirmer does (section 4.4). It does not read the intent's status.
\<close>

definition expected_payload :: "intent \<Rightarrow> signing_payload" where
  "expected_payload i =
     (intent_ident i, intent_amount i, intent_sender i, intent_recipient i, expiresAt i)"

text \<open>
  Modelled from the spec: one transition of the missing ledger's state machine (section
  4.2), the intent stored under an id moved to a new status.
\<close>

definition set_state :: "string \<Rightarrow> intent \<Rightarrow> intent_status \<Rightarrow> ledger \<Rightarrow> ledger" where
  "set_state iid i s l = l\<lparr>intents := (intents l)(iid \<mapsto> i\<lparr>intent_state := s\<rparr>)\<rparr>"

text \<open>
  Modelled from the spec: the Settlement Confirmer of section 4.4 with the rules of section
  4.2, the confirm operation missing from the sources. \<open>verify payload address signature\<close>
  is the structured-signature verification and \<open>settle i now\<close> the settlement, which gives
  the receipt, or nothing when it fails for good; the spec leaves both open, so they are
  parameters. An unknown id is \<open>NotFound\<close>. A confirm on a confirmed intent with a
  signature that verifies is the retried confirm of sections 4.2 and 8: it gets the
  existing receipt back and nothing is settled; section 8 puts no bound on the time of
  the retry, and none is put here. Every other confirm goes through the checks of section
  4.4: an intent past its \<open>expiresAt\<close> is rejected with \<open>Expired\<close>, and times out if it
  was pending or authorized; an intent that is not authorized is rejected with
  \<open>InvalidState\<close>; a signature that does not verify makes the intent failed; otherwise the
  intent is settled, and is confirmed with the receipt or failed.
\<close>

definition confirm ::
  "(signing_payload \<Rightarrow> string \<Rightarrow> string \<Rightarrow> bool) \<Rightarrow> (intent \<Rightarrow> nat \<Rightarrow> receipt option)
     \<Rightarrow> nat \<Rightarrow> string \<Rightarrow> string \<Rightarrow> ledger \<Rightarrow> (ledger_error + receipt) \<times> ledger" where
  "confirm verify settle now iid signature l =
     (case intents l iid of
        None \<Rightarrow> (Inl NotFound, l)
      | Some i \<Rightarrow>
          (case (if intent_state i = S_confirmed
                    \<and> verify (expected_payload i) (intent_sender i) signature
                 then receipts l iid else None) of
             Some r \<Rightarrow> (Inr r, l)
           | None \<Rightarrow>
               if expiresAt i < now then
                 (Inl Expired,
                  if intent_state i = S_pending \<or> intent_state i = S_authorized
                  then set_state iid i S_expired l else l)
               else if intent_state i \<noteq> S_authorized then (Inl InvalidState, l)
               else if \<not> verify (expected_payload i) (intent_sender i) signature then
                 (Inl InvalidSignature, set_state iid i S_failed l)
               else
                 (case settle i now of
                    None \<Rightarrow> (Inl SettlementFailure, set_state iid i S_failed l)
                  | Some r \<Rightarrow>
                      (Inr r,
                       (set_state iid i S_confirmed l)
                         \<lparr>receipts := (receipts l)(iid \<mapsto> r),
                          settlements := settlements l @ [(iid, r)]\<rparr>))))"

text \<open>
  An example: an intent that was confirmed at time 40 and expires at 100, with its receipt
  and a ledger that holds them with the one settlement; a verifier that accepts the
  signature \<open>good\<close>; a settlement backend that always succeeds; and a ledger that holds
  the intent when it was authorized and not settled yet.
\<close>

definition demo_intent :: intent where
  "demo_intent =
     \<lparr>intent_ident = ''i1'', intent_url = ''https://api.stripe.com'', intent_amount = 100,
      intent_sender = ''0xA'', intent_recipient = ''0xB'', intent_state = S_confirmed,
      createdAt = 10, expiresAt = 100\<rparr>"

definition demo_receipt :: receipt where
  "demo_receipt =
     \<lparr>txHash = ''0x01'', explorerUrl = ''https://explorer/0x01'', confirmedAt = 40,
      receipt_amount = 100, receipt_recipient = ''0xB''\<rparr>"


definition demo_verify :: "signing_payload \<Rightarrow> string \<Rightarrow> string \<Rightarrow> bool" where
  "demo_verify payload address signature = (signature = ''good'')"

definition demo_settle :: "intent \<Rightarrow> nat \<Rightarrow> receipt option" where
  "demo_settle i now =
     Some \<lparr>txHash = ''0x01'', explorerUrl = ''https://explorer/0x01'', confirmedAt = now,
           receipt_amount = intent_amount i, receipt_recipient = intent_recipient i\<rparr>"

definition authorized_ledger :: ledger where
  "authorized_ledger =
     \<lparr>intents = [''i1'' \<mapsto> demo_intent\<lparr>intent_state := S_authorized\<rparr>],
      receipts = Map.empty, settlements = []\<rparr>"


section \<open>Trailing characters\<close>

lemma py_rstrip_replicate:
  "c \<in> set chars \<Longrightarrow> py_rstrip (s @ replicate k c) chars = py_rstrip s chars"
  by (induction k) (simp_all add: py_rstrip_def replicate_append_same)

lemma takeWhile_same_replicate:
  "takeWhile (\<lambda>x. x \<in> set [c]) xs =
     replicate (length (takeWhile (\<lambda>x. x \<in> set [c]) xs)) c"
  by (induction xs) auto

lemma py_rstrip_decomp: "\<exists>k. s = py_rstrip s [c] @ replicate k c"
proof -
  let ?p = "\<lambda>x. x \<in> set [c]"
  have "rev s = takeWhile ?p (rev s) @ dropWhile ?p (rev s)" by simp
  moreover have "takeWhile ?p (rev s) = replicate (length (takeWhile ?p (rev s))) c"
    by (rule takeWhile_same_replicate)
  ultimately have "rev s = replicate (length (takeWhile ?p (rev s))) c @ dropWhile ?p (rev s)"
    by simp
  then have "s = rev (dropWhile ?p (rev s)) @ replicate (length (takeWhile ?p (rev s))) c"
    by (metis rev_append rev_replicate rev_rev_ident)
  then show ?thesis unfolding py_rstrip_def by blast
qed

lemma py_rstrip_no_trailing: "c \<in> set chars \<Longrightarrow> py_rstrip s chars \<noteq> t @ [c]"
proof
  assume c: "c \<in> set chars" and eq: "py_rstrip s chars = t @ [c]"
  from eq have "rev (py_rstrip s chars) = c # rev t" by simp
  then have "dropWhile (\<lambda>x. x \<in> set chars) (rev s) = c # rev t"
    by (simp add: py_rstrip_def)
  then show False using c by (metis hd_dropWhile list.sel(1) list.distinct(1))
qed

section \<open>The call each method makes\<close>

lemmas method_defs =
  validate_url_def create_intent_def get_authorization_def confirm_payment_def
  get_intent_status_def health_check_def session_post_def session_get_def
  session_request_def

text \<open>
  Every method makes the call of the endpoint table on the session, once, and turns the
  library's outcome into its own in the same way.
\<close>

lemma invoke_unfold:
  "invoke lib self c n =
     (let made = \<lparr>sc_verb = table_verb c, sc_url = base_url self @ table_path c,
                  sc_headers = session_headers self, sc_json = table_body c\<rparr>
      in (bind_err (fst (lib (world n) made)) (\<lambda>response.
            bind_err (raise_for_status response) (\<lambda>_. response_json response)),
          \<lparr>calls = calls n @ [made], world = snd (lib (world n) made)\<rparr>))"
  by (cases c) (simp_all add: method_defs Let_def split: prod.splits)

section \<open>Plain URLs\<close>

lemmas plain_defs =
  plain_authority_def plain_base_path_def plain_path_def lower_alnum_def host_char_def
  digit_char_def name_char_def path_char_def

lemma separators_not_plain:
  "\<not> host_char (CHR ''/'')" "\<not> host_char (CHR ''#'')"
  "\<not> digit_char (CHR ''/'')" "\<not> digit_char (CHR ''#'')"
  "\<not> path_char (CHR ''#'')"
  by (simp_all add: host_char_def lower_alnum_def digit_char_def path_char_def name_char_def)

lemma plain_authority_chars:
  assumes "plain_authority a" and "c \<in> set a"
  shows "c \<noteq> CHR ''/'' \<and> c \<noteq> CHR ''#''"
proof -
  let ?host = "takeWhile (\<lambda>c. c \<noteq> CHR '':'') a"
  let ?port = "dropWhile (\<lambda>c. c \<noteq> CHR '':'') a"
  have split: "a = ?host @ ?port" by simp
  from assms(2) split have "c \<in> set ?host \<or> c \<in> set ?port"
    by (metis Un_iff set_append)
  then show ?thesis
  proof
    assume "c \<in> set ?host"
    moreover from assms(1) have "list_all host_char ?host"
      by (simp add: plain_authority_def Let_def)
    ultimately have "host_char c" by (simp add: list_all_iff)
    then show ?thesis using separators_not_plain by blast
  next
    assume in_port: "c \<in> set ?port"
    then have ne: "?port \<noteq> []" by (auto simp del: dropWhile_eq_Nil_conv)
    from ne have hd: "hd ?port = CHR '':''"
      using hd_dropWhile[of "\<lambda>c. c \<noteq> CHR '':''" a] by (simp del: dropWhile_eq_Nil_conv)
    from ne have "?port = hd ?port # tl ?port" by simp
    with in_port have "c = hd ?port \<or> c \<in> set (tl ?port)"
      by (metis set_ConsD)
    moreover from assms(1) ne have "list_all digit_char (tl ?port)"
      unfolding plain_authority_def Let_def by blast
    ultimately have "c = CHR '':'' \<or> digit_char c" using hd by (auto simp add: list_all_iff)
    then show ?thesis using separators_not_plain by auto
  qed
qed

lemma plain_path_chars: "plain_path p \<Longrightarrow> c \<in> set p \<Longrightarrow> c \<noteq> CHR ''#''"
  using separators_not_plain by (auto simp add: plain_path_def list_all_iff)

lemma plain_target_build:
  assumes scheme: "scheme = ''http://'' \<or> scheme = ''https://''"
    and a: "plain_authority a" and p: "plain_path p"
  shows "plain_target (scheme @ a @ p) = Some (if p = [] then ''/'' else p)"
proof -
  let ?sep = "\<lambda>c. c \<noteq> CHR ''/'' \<and> c \<noteq> CHR ''#''"
  have stop: "p = [] \<or> \<not> ?sep (hd p)" using p by (auto simp add: plain_path_def)
  have all: "\<And>c. c \<in> set a \<Longrightarrow> ?sep c" using plain_authority_chars[OF a] by blast
  have tw: "takeWhile ?sep (a @ p) = a"
    using all stop by (cases p) (auto simp add: takeWhile_append2)
  have dw: "dropWhile ?sep (a @ p) = p"
    using all stop by (cases p) (auto simp add: dropWhile_append2)
  have nohash: "\<And>c. c \<in> set p \<Longrightarrow> c \<noteq> CHR ''#''" using plain_path_chars[OF p] by blast
  have tp: "takeWhile (\<lambda>c. c \<noteq> CHR ''#'') p = p" using nohash by (simp add: takeWhile_eq_all_conv)
  have dp: "dropWhile (\<lambda>c. c \<noteq> CHR ''#'') p = []" using nohash by (simp add: dropWhile_eq_Nil_conv)
  from scheme show ?thesis
  proof
    assume "scheme = ''http://''"
    then show ?thesis by (simp add: plain_target_def Let_def tw dw tp dp a p)
  next
    assume "scheme = ''https://''"
    then show ?thesis by (simp add: plain_target_def Let_def tw dw tp dp a p)
  qed
qed

lemma plain_target_colon: "plain_target u = Some t \<Longrightarrow> CHR '':'' \<in> set u"
proof -
  assume "plain_target u = Some t"
  then have "take 7 u = ''http://'' \<or> take 8 u = ''https://''"
    by (auto simp add: plain_target_def split: if_splits)
  then have "CHR '':'' \<in> set (take 7 u) \<or> CHR '':'' \<in> set (take 8 u)" by auto
  then show ?thesis by (meson in_set_takeD)
qed

lemma name_path_char: "list_all name_char s \<Longrightarrow> list_all path_char s"
  by (simp add: list_all_iff path_char_def)

lemma table_path_chars:
  assumes "list_all name_char (path_argument c)"
  shows "list_all path_char (table_path c)"
proof (cases c)
  case (Get_intent_status intent_id)
  have "list_all path_char ''/v1/payments/x402/status/''"
    by (simp add: path_char_def name_char_def)
  moreover have "list_all path_char intent_id"
    using assms Get_intent_status by (simp add: name_path_char)
  ultimately have "list_all path_char (''/v1/payments/x402/status/'' @ intent_id)"
    by (simp only: list_all_append simp_thms)
  then show ?thesis using Get_intent_status by (simp only: table_path.simps)
qed (simp_all add: path_char_def name_char_def)

lemma table_path_lead:
  "table_path c \<noteq> []" "hd (table_path c) = CHR ''/''" "take 2 (table_path c) \<noteq> ''//''"
  by (cases c; simp)+

lemma table_path_plain:
  assumes "plain_base_path bp" and "list_all name_char (path_argument c)"
  shows "plain_path (bp @ table_path c)"
proof (cases bp)
  case Nil
  then show ?thesis using table_path_chars[OF assms(2)] table_path_lead[of c]
    by (simp add: plain_path_def)
next
  case (Cons x xs)
  with assms(1) have pp: "plain_path (x # xs)" and lst: "last (x # xs) \<noteq> CHR ''/''"
    by (simp_all add: plain_base_path_def)
  from pp have all: "list_all path_char (x # xs)"
    unfolding plain_path_def by blast
  from pp have x: "x = CHR ''/''"
    unfolding plain_path_def by simp
  from pp have nn: "take 2 (x # xs) \<noteq> ''//''"
    unfolding plain_path_def by blast
  from x lst have "xs \<noteq> []" by auto
  then obtain y ys where ys: "xs = y # ys" by (cases xs) auto
  have "list_all path_char (bp @ table_path c)"
    using all Cons table_path_chars[OF assms(2)] by (simp only: list_all_append simp_thms)
  moreover have "hd (bp @ table_path c) = CHR ''/''" using Cons x by simp
  moreover have "take 2 (bp @ table_path c) \<noteq> ''//''" using Cons ys nn by simp
  ultimately show ?thesis using Cons by (simp add: plain_path_def)
qed

text \<open>The library, on a plain URL answered by a response that it does not follow.\<close>

lemma known_outcome_plain:
  assumes "plain_target (sc_url made) = Some t" and "\<not> proxied env (sc_url made)"
    and "\<And>b. sc_json made = Some b \<Longrightarrow> \<not> dumps_fails env b"
    and "network env (remote w) \<lparr>wire_verb = sc_verb made, wire_target = t,
           wire_json = sc_json made\<rparr> = (Some r, n')"
    and "\<not> followed r"
  shows "requests_session env rest w made =
           (Inr (handed_back r),
            \<lparr>issued = issued w @ [\<lparr>wire_verb = sc_verb made, wire_target = t,
                                   wire_json = sc_json made\<rparr>], remote = n'\<rparr>)"
  using assms plain_target_colon[OF assms(1)]
  by (auto simp add: requests_session_def known_outcome_def Let_def split: option.splits)

lemma invoke_plain:
  assumes scheme: "scheme = ''http://'' \<or> scheme = ''https://''"
    and a: "plain_authority a" and bp: "plain_base_path bp"
    and base: "base_url self = scheme @ a @ bp"
    and arg: "list_all name_char (path_argument c)"
    and proxy: "\<not> proxied env (base_url self @ table_path c)"
    and dumps: "\<And>b. table_body c = Some b \<Longrightarrow> \<not> dumps_fails env b"
    and net: "network env (remote (world n))
               \<lparr>wire_verb = table_verb c, wire_target = bp @ table_path c,
                 wire_json = table_body c\<rparr> = (Some r, n')"
    and r: "\<not> followed r"
  shows "invoke (requests_session env rest) self c n =
           (bind_err (raise_for_status (handed_back r)) (\<lambda>_. response_json (handed_back r)),
            \<lparr>calls = calls n @ [\<lparr>sc_verb = table_verb c, sc_url = base_url self @ table_path c,
                                  sc_headers = session_headers self, sc_json = table_body c\<rparr>],
             world = \<lparr>issued = issued (world n) @
                        [\<lparr>wire_verb = table_verb c, wire_target = bp @ table_path c,
                          wire_json = table_body c\<rparr>],
                      remote = n'\<rparr>\<rparr>)"
proof -
  let ?made = "\<lparr>sc_verb = table_verb c, sc_url = base_url self @ table_path c,
                 sc_headers = session_headers self, sc_json = table_body c\<rparr>"
  have ne: "bp @ table_path c \<noteq> []" by (cases c) simp_all
  have "plain_target (scheme @ a @ (bp @ table_path c)) = Some (bp @ table_path c)"
    using plain_target_build[OF scheme a table_path_plain[OF bp arg]] ne by simp
  then have t: "plain_target (sc_url ?made) = Some (bp @ table_path c)"
    using base by simp
  have "requests_session env rest (world n) ?made =
          (Inr (handed_back r),
           \<lparr>issued = issued (world n) @ [\<lparr>wire_verb = sc_verb ?made,
                wire_target = bp @ table_path c, wire_json = sc_json ?made\<rparr>], remote = n'\<rparr>)"
    by (rule known_outcome_plain[OF t]) (use proxy dumps net r in simp_all)
  then show ?thesis by (simp add: invoke_unfold Let_def bind_err_def)
qed

section \<open>Requests\<close>

text \<open>
  C9. \<open>validate_url(url)\<close> with the amount left out sends the body
  \<open>{"url": url, "amount": 100}\<close>: the amount defaults to 100.
\<close>

theorem validate_url_default_amount:
  "calls (snd (validate_url lib self target None n)) =
     calls n @ [\<lparr>sc_verb = POST, sc_url = base_url self @ ''/v1/sentinel/validate'',
                 sc_headers = session_headers self,
                 sc_json = Some (PDict [(''url'', PStr target), (''amount'', PInt 100)])\<rparr>]
   \<and> validate_url lib self target None n = validate_url lib self target (Some 100) n"
  by (simp add: method_defs Let_def split: prod.splits)

theorem validate_url_default_amount_witness:
  "sc_json (last (calls (snd (validate_url
       (const_library \<lparr>status_code = 200, json_body = None\<rparr>)
       (SnowRailClient_init None) ''https://api.stripe.com'' None
       \<lparr>calls = [], world = ()\<rparr>)))) =
     Some (PDict [(''url'', PStr ''https://api.stripe.com''), (''amount'', PInt 100)])"
  using validate_url_default_amount
    [of "const_library \<lparr>status_code = 200, json_body = None\<rparr>" "SnowRailClient_init None"
        "''https://api.stripe.com''" "\<lparr>calls = [], world = ()\<rparr>"]
  by (simp add: method_defs const_library_def Let_def)

text \<open>
  C1. Every method makes the call of the endpoint table on the session: \<open>validate_url\<close>
  posts \<open>{url, amount}\<close> to \<open>/v1/sentinel/validate\<close>, \<open>create_intent\<close> posts
  \<open>{url, amount, sender, recipient}\<close> to \<open>/v1/payments/x402/intent\<close>,
  \<open>get_authorization\<close> posts \<open>{intentId}\<close> to \<open>/v1/payments/x402/sign\<close>,
  \<open>confirm_payment\<close> posts \<open>{intentId, signature}\<close> to \<open>/v1/payments/x402/confirm\<close>,
  \<open>get_intent_status\<close> gets \<open>/v1/payments/x402/status/{intentId}\<close> with the intent id
  put in as it is, and \<open>health_check\<close> gets \<open>/health\<close>; the URL of the call is the
  client's base URL followed by the path, and a GET is called without a body. The base
  URL of a client is the one it was built with, less its trailing slashes, and
  \<open>http://localhost:3000\<close> when none was given.

  The HTTP request that the library then issues is the one of the table, with the path
  after the path of the base URL, when the base URL is \<open>http://\<close> or \<open>https://\<close>, a plain
  authority and a plain base path, the intent id is made of letters, digits, \<open>-\<close>, \<open>_\<close> and
  \<open>~\<close>, no proxy is in the way, the body can be serialised, and the response that arrives
  is not a redirect that the library follows. It is the only HTTP request issued.
\<close>

theorem requests_match_endpoint_table:
  "calls (snd (validate_url lib self target (Some amount) n)) =
     calls n @ [\<lparr>sc_verb = POST, sc_url = base_url self @ ''/v1/sentinel/validate'',
                 sc_headers = session_headers self,
                 sc_json = Some (PDict [(''url'', PStr target), (''amount'', PInt amount)])\<rparr>]
   \<and> calls (snd (create_intent lib self target amount sender recipient n)) =
     calls n @ [\<lparr>sc_verb = POST, sc_url = base_url self @ ''/v1/payments/x402/intent'',
                 sc_headers = session_headers self,
                 sc_json = Some (PDict [(''url'', PStr target), (''amount'', PInt amount),
                                        (''sender'', PStr sender),
                                        (''recipient'', PStr recipient)])\<rparr>]
   \<and> calls (snd (get_authorization lib self intent_id n)) =
     calls n @ [\<lparr>sc_verb = POST, sc_url = base_url self @ ''/v1/payments/x402/sign'',
                 sc_headers = session_headers self,
                 sc_json = Some (PDict [(''intentId'', PStr intent_id)])\<rparr>]
   \<and> calls (snd (confirm_payment lib self intent_id signature n)) =
     calls n @ [\<lparr>sc_verb = POST, sc_url = base_url self @ ''/v1/payments/x402/confirm'',
                 sc_headers = session_headers self,
                 sc_json = Some (PDict [(''intentId'', PStr intent_id),
                                        (''signature'', PStr signature)])\<rparr>]
   \<and> calls (snd (get_intent_status lib self intent_id n)) =
     calls n @ [\<lparr>sc_verb = GET,
                 sc_url = base_url self @ ''/v1/payments/x402/status/'' @ intent_id,
                 sc_headers = session_headers self, sc_json = None\<rparr>]
   \<and> calls (snd (health_check lib self n)) =
     calls n @ [\<lparr>sc_verb = GET, sc_url = base_url self @ ''/health'',
                 sc_headers = session_headers self, sc_json = None\<rparr>]
   \<and> base_url (SnowRailClient_init (Some b)) = py_rstrip b ''/''
   \<and> base_url (SnowRailClient_init None) = ''http://localhost:3000''
   \<and> ((scheme = ''http://'' \<or> scheme = ''https://'') \<and> plain_authority a
        \<and> plain_base_path bp \<and> base_url self = scheme @ a @ bp
        \<and> list_all name_char (path_argument c)
        \<and> \<not> proxied env (base_url self @ table_path c)
        \<and> (\<forall>body. table_body c = Some body \<longrightarrow> \<not> dumps_fails env body)
        \<and> network env (remote (world m))
             \<lparr>wire_verb = table_verb c, wire_target = bp @ table_path c,
               wire_json = table_body c\<rparr> = (Some r, n')
        \<and> \<not> followed r
      \<longrightarrow> world (snd (invoke (requests_session env rest) self c m)) =
            \<lparr>issued = issued (world m) @
               [\<lparr>wire_verb = table_verb c, wire_target = bp @ table_path c,
                 wire_json = table_body c\<rparr>],
             remote = n'\<rparr>)"
proof -
  have on_the_wire:
    "(scheme = ''http://'' \<or> scheme = ''https://'') \<and> plain_authority a
        \<and> plain_base_path bp \<and> base_url self = scheme @ a @ bp
        \<and> list_all name_char (path_argument c)
        \<and> \<not> proxied env (base_url self @ table_path c)
        \<and> (\<forall>body. table_body c = Some body \<longrightarrow> \<not> dumps_fails env body)
        \<and> network env (remote (world m))
             \<lparr>wire_verb = table_verb c, wire_target = bp @ table_path c,
               wire_json = table_body c\<rparr> = (Some r, n')
        \<and> \<not> followed r
      \<longrightarrow> world (snd (invoke (requests_session env rest) self c m)) =
            \<lparr>issued = issued (world m) @
               [\<lparr>wire_verb = table_verb c, wire_target = bp @ table_path c,
                 wire_json = table_body c\<rparr>],
             remote = n'\<rparr>"
  proof (intro impI, elim conjE)
    assume "scheme = ''http://'' \<or> scheme = ''https://''" "plain_authority a"
      "plain_base_path bp" "base_url self = scheme @ a @ bp"
      "list_all name_char (path_argument c)"
      "\<not> proxied env (base_url self @ table_path c)"
      "\<forall>body. table_body c = Some body \<longrightarrow> \<not> dumps_fails env body"
      "network env (remote (world m))
             \<lparr>wire_verb = table_verb c, wire_target = bp @ table_path c,
               wire_json = table_body c\<rparr> = (Some r, n')"
      "\<not> followed r"
    then have "invoke (requests_session env rest) self c m =
           (bind_err (raise_for_status (handed_back r)) (\<lambda>_. response_json (handed_back r)),
            \<lparr>calls = calls m @ [\<lparr>sc_verb = table_verb c, sc_url = base_url self @ table_path c,
                                  sc_headers = session_headers self, sc_json = table_body c\<rparr>],
             world = \<lparr>issued = issued (world m) @
                        [\<lparr>wire_verb = table_verb c, wire_target = bp @ table_path c,
                          wire_json = table_body c\<rparr>],
                      remote = n'\<rparr>\<rparr>)"
      by (intro invoke_plain) auto
    then show "world (snd (invoke (requests_session env rest) self c m)) =
            \<lparr>issued = issued (world m) @
               [\<lparr>wire_verb = table_verb c, wire_target = bp @ table_path c,
                 wire_json = table_body c\<rparr>],
             remote = n'\<rparr>"
      by simp
  qed
  have in_the_call:
    "calls (snd (validate_url lib self target (Some amount) n)) =
       calls n @ [\<lparr>sc_verb = POST, sc_url = base_url self @ ''/v1/sentinel/validate'',
                   sc_headers = session_headers self,
                   sc_json = Some (PDict [(''url'', PStr target), (''amount'', PInt amount)])\<rparr>]
     \<and> calls (snd (create_intent lib self target amount sender recipient n)) =
       calls n @ [\<lparr>sc_verb = POST, sc_url = base_url self @ ''/v1/payments/x402/intent'',
                   sc_headers = session_headers self,
                   sc_json = Some (PDict [(''url'', PStr target), (''amount'', PInt amount),
                                          (''sender'', PStr sender),
                                          (''recipient'', PStr recipient)])\<rparr>]
     \<and> calls (snd (get_authorization lib self intent_id n)) =
       calls n @ [\<lparr>sc_verb = POST, sc_url = base_url self @ ''/v1/payments/x402/sign'',
                   sc_headers = session_headers self,
                   sc_json = Some (PDict [(''intentId'', PStr intent_id)])\<rparr>]
     \<and> calls (snd (confirm_payment lib self intent_id signature n)) =
       calls n @ [\<lparr>sc_verb = POST, sc_url = base_url self @ ''/v1/payments/x402/confirm'',
                   sc_headers = session_headers self,
                   sc_json = Some (PDict [(''intentId'', PStr intent_id),
                                          (''signature'', PStr signature)])\<rparr>]
     \<and> calls (snd (get_intent_status lib self intent_id n)) =
       calls n @ [\<lparr>sc_verb = GET,
                   sc_url = base_url self @ ''/v1/payments/x402/status/'' @ intent_id,
                   sc_headers = session_headers self, sc_json = None\<rparr>]
     \<and> calls (snd (health_check lib self n)) =
       calls n @ [\<lparr>sc_verb = GET, sc_url = base_url self @ ''/health'',
                   sc_headers = session_headers self, sc_json = None\<rparr>]
     \<and> base_url (SnowRailClient_init (Some b)) = py_rstrip b ''/''
     \<and> base_url (SnowRailClient_init None) = ''http://localhost:3000''"
    by (simp add: method_defs Let_def SnowRailClient_init_def py_rstrip_def split: prod.splits)
  from in_the_call on_the_wire show ?thesis by (simp only: simp_thms)
qed

theorem requests_match_endpoint_table_witness:
  "map sc_url (calls (snd (get_intent_status
       (requests_session (direct_env answer_ok) raising_library)
       (SnowRailClient_init (Some ''http://localhost:3000/'')) ''abc-1''
       \<lparr>calls = [], world = \<lparr>issued = [], remote = ()\<rparr>\<rparr>))) =
     [''http://localhost:3000/v1/payments/x402/status/abc-1'']
   \<and> issued (world (snd (invoke (requests_session (direct_env answer_ok) raising_library)
       (SnowRailClient_init (Some ''http://localhost:3000/'')) (Get_intent_status ''abc-1'')
       \<lparr>calls = [], world = \<lparr>issued = [], remote = ()\<rparr>\<rparr>))) =
     [\<lparr>wire_verb = GET, wire_target = ''/v1/payments/x402/status/abc-1'', wire_json = None\<rparr>]"
  using requests_match_endpoint_table
    [of "requests_session (direct_env answer_ok) raising_library"
        "SnowRailClient_init (Some ''http://localhost:3000/'')" _ _
        "\<lparr>calls = [], world = \<lparr>issued = [], remote = ()\<rparr>\<rparr>" _ _ "''abc-1''" _ _
        "''http://''" "''localhost:3000''" "[]" "Get_intent_status ''abc-1''"
        "direct_env answer_ok"
        "\<lparr>calls = [], world = \<lparr>issued = [], remote = ()\<rparr>\<rparr>"
        "\<lparr>wire_status = 200, wire_location = None, wire_json_body = Some (PDict [])\<rparr>"
        "()" raising_library]
  by (simp add: SnowRailClient_init_def py_rstrip_def plain_defs direct_env_def never_def
        answer_ok_def followed_def)

text \<open>
  The HTTP request issued is not always the one of the table: of the intent id \<open>a#b\<close> the
  library sends only \<open>a\<close>, what follows the \<open>#\<close> being a fragment.
\<close>

theorem fragment_not_sent_counterexample:
  "issued (world (snd (get_intent_status
       (requests_session (direct_env answer_ok) raising_library)
       (SnowRailClient_init None) ''a#b''
       \<lparr>calls = [], world = \<lparr>issued = [], remote = ()\<rparr>\<rparr>))) =
     [\<lparr>wire_verb = GET, wire_target = ''/v1/payments/x402/status/a'', wire_json = None\<rparr>]
   \<and> ''/v1/payments/x402/status/a'' \<noteq> table_path (Get_intent_status ''a#b'')"
  by (simp add: method_defs Let_def SnowRailClient_init_def py_rstrip_def requests_session_def
        known_outcome_def plain_target_def plain_defs direct_env_def never_def answer_ok_def
        followed_def handed_back_def)

text \<open>
  C7. The constructor stores the base URL without its trailing \<open>/\<close> characters: the
  argument is the stored URL followed by slashes only, and the stored URL does not end in
  a slash. So the client does not change when a slash is appended to the base URL, two base
  URLs that differ only in trailing slashes give the same client, and every method called on
  the two makes the same call (the same endpoint URL) with the same outcome.
\<close>

theorem base_url_trailing_slashes:
  "(\<exists>k. b = base_url (SnowRailClient_init (Some b)) @ replicate k CHR ''/'')
   \<and> (\<forall>t. base_url (SnowRailClient_init (Some b)) \<noteq> t @ ''/'')
   \<and> SnowRailClient_init (Some (b @ ''/'')) = SnowRailClient_init (Some b)
   \<and> SnowRailClient_init (Some (s @ replicate i CHR ''/'')) =
       SnowRailClient_init (Some (s @ replicate j CHR ''/''))
   \<and> invoke lib (SnowRailClient_init (Some (s @ replicate i CHR ''/''))) c n =
       invoke lib (SnowRailClient_init (Some (s @ replicate j CHR ''/''))) c n"
proof -
  have slash: "CHR ''/'' \<in> set ''/''" by simp
  have stored: "\<exists>k. b = base_url (SnowRailClient_init (Some b)) @ replicate k CHR ''/''"
    using py_rstrip_decomp[of b "CHR ''/''"] by (simp add: SnowRailClient_init_def)
  have stripped: "\<forall>t. base_url (SnowRailClient_init (Some b)) \<noteq> t @ ''/''"
    using py_rstrip_no_trailing[OF slash] by (simp add: SnowRailClient_init_def)
  have one_more: "SnowRailClient_init (Some (b @ ''/'')) = SnowRailClient_init (Some b)"
    using py_rstrip_replicate[OF slash, of b 1] by (simp add: SnowRailClient_init_def)
  have same: "SnowRailClient_init (Some (s @ replicate i CHR ''/'')) =
       SnowRailClient_init (Some (s @ replicate j CHR ''/''))"
    using py_rstrip_replicate[OF slash, of s i] py_rstrip_replicate[OF slash, of s j]
    by (simp add: SnowRailClient_init_def)
  show ?thesis using stored stripped one_more same by simp
qed

theorem base_url_trailing_slashes_witness:
  "base_url (SnowRailClient_init (Some ''http://localhost:3000//'')) = ''http://localhost:3000''
   \<and> map sc_url (calls (snd (invoke
         (const_library \<lparr>status_code = 200, json_body = Some PNone\<rparr>)
         (SnowRailClient_init (Some ''http://h/'')) Health_check
         \<lparr>calls = [], world = ()\<rparr>))) =
       map sc_url (calls (snd (invoke
         (const_library \<lparr>status_code = 200, json_body = Some PNone\<rparr>)
         (SnowRailClient_init (Some ''http://h'')) Health_check
         \<lparr>calls = [], world = ()\<rparr>)))"
  using base_url_trailing_slashes [of "''http://localhost:3000//''" "''http://h''" 1 0
      "const_library \<lparr>status_code = 200, json_body = Some PNone\<rparr>" Health_check
      "\<lparr>calls = [], world = ()\<rparr>"]
  by (simp add: SnowRailClient_init_def py_rstrip_def)

section \<open>Responses\<close>

text \<open>
  C2. Whatever the method and whatever response the session hands back, the method raises
  \<open>HTTPError\<close> exactly when the status is a client or server error (400 to 599). For every
  other status, inside the 2xx range or not, it returns the parsed JSON body as a value
  (and raises the decoder's error when the body is not JSON).
\<close>

theorem raises_exactly_on_4xx_5xx:
  assumes "fst (lib (world n) (last (calls (snd (invoke lib self c n))))) = Inr resp"
  shows "fst (invoke lib self c n) =
     (if 400 \<le> status_code resp \<and> status_code resp < 600
      then Inl (HTTPError (status_code resp))
      else case json_body resp of None \<Rightarrow> Inl JSONDecodeError | Some v \<Rightarrow> Inr v)"
  using assms
  by (simp add: invoke_unfold Let_def bind_err_def raise_for_status_def response_json_def)

theorem raises_exactly_on_4xx_5xx_witness:
  "fst (invoke (const_library \<lparr>status_code = 404, json_body = Some (PDict [(''error'', PStr ''not found'')])\<rparr>)
        (SnowRailClient_init None) (Get_intent_status ''abc-1'') \<lparr>calls = [], world = ()\<rparr>) =
     Inl (HTTPError 404)"
  using raises_exactly_on_4xx_5xx
    [of "const_library \<lparr>status_code = 404, json_body = Some (PDict [(''error'', PStr ''not found'')])\<rparr>"
        "\<lparr>calls = [], world = ()\<rparr>" "SnowRailClient_init None" "Get_intent_status ''abc-1''"
        "\<lparr>status_code = 404, json_body = Some (PDict [(''error'', PStr ''not found'')])\<rparr>"]
  by (simp add: const_library_def)

text \<open>
  Not every response outside the 2xx range is raised: one with status 300 and a JSON body
  is returned as a value.
\<close>

theorem status_300_returned_counterexample:
  "\<not> (200 \<le> status_code \<lparr>status_code = 300, json_body = Some (PDict [])\<rparr>
        \<and> status_code \<lparr>status_code = 300, json_body = Some (PDict [])\<rparr> < 300)
   \<and> fst (validate_url (const_library \<lparr>status_code = 300, json_body = Some (PDict [])\<rparr>)
        (SnowRailClient_init None) ''https://api.stripe.com'' None
        \<lparr>calls = [], world = ()\<rparr>) =
     Inr (PDict [])"
  by (simp add: method_defs const_library_def Let_def bind_err_def raise_for_status_def
        response_json_def)

text \<open>
  C3. Every call of a method makes exactly one call on the session, whatever the outcome,
  and the world outside changes as that one call changes it: the client sends nothing
  again after a failure. An exception of the session is passed on as it is, a response
  with a status from 400 to 599 is raised as \<open>HTTPError\<close> with that status, and for any
  other response the method returns the JSON body, parsed and unchanged; so it does on a
  2xx response with a JSON body.

  The library issues exactly one HTTP request for the call when the base URL is \<open>http://\<close>
  or \<open>https://\<close>, a plain authority and a plain base path, the intent id is made of
  letters, digits, \<open>-\<close>, \<open>_\<close> and \<open>~\<close>, no proxy is in the way, the body can be serialised,
  and the response that arrives is not a redirect that the library follows, whatever its
  status otherwise.
\<close>

theorem one_request_per_call:
  "(\<exists>made. calls (snd (invoke lib self c n)) = calls n @ [made]
      \<and> world (snd (invoke lib self c n)) = snd (lib (world n) made)
      \<and> fst (invoke lib self c n) =
          (case fst (lib (world n) made) of
             Inl e \<Rightarrow> Inl e
           | Inr resp \<Rightarrow>
               if 400 \<le> status_code resp \<and> status_code resp < 600
               then Inl (HTTPError (status_code resp))
               else (case json_body resp of None \<Rightarrow> Inl JSONDecodeError | Some v \<Rightarrow> Inr v))
      \<and> (\<forall>resp v. fst (lib (world n) made) = Inr resp \<and> 200 \<le> status_code resp
             \<and> status_code resp < 300 \<and> json_body resp = Some v
           \<longrightarrow> fst (invoke lib self c n) = Inr v))
   \<and> ((scheme = ''http://'' \<or> scheme = ''https://'') \<and> plain_authority a
        \<and> plain_base_path bp \<and> base_url self = scheme @ a @ bp
        \<and> list_all name_char (path_argument c)
        \<and> \<not> proxied env (base_url self @ table_path c)
        \<and> (\<forall>body. table_body c = Some body \<longrightarrow> \<not> dumps_fails env body)
        \<and> network env (remote (world m))
             \<lparr>wire_verb = table_verb c, wire_target = bp @ table_path c,
               wire_json = table_body c\<rparr> = (Some r, n')
        \<and> \<not> followed r
      \<longrightarrow> (\<exists>rq. issued (world (snd (invoke (requests_session env rest) self c m))) =
                  issued (world m) @ [rq])
          \<and> remote (world (snd (invoke (requests_session env rest) self c m))) = n'
          \<and> fst (invoke (requests_session env rest) self c m) =
              (if 400 \<le> wire_status r \<and> wire_status r < 600
               then Inl (HTTPError (wire_status r))
               else (case wire_json_body r of
                       None \<Rightarrow> Inl JSONDecodeError | Some v \<Rightarrow> Inr v)))"
proof -
  have on_the_wire:
    "(scheme = ''http://'' \<or> scheme = ''https://'') \<and> plain_authority a
        \<and> plain_base_path bp \<and> base_url self = scheme @ a @ bp
        \<and> list_all name_char (path_argument c)
        \<and> \<not> proxied env (base_url self @ table_path c)
        \<and> (\<forall>body. table_body c = Some body \<longrightarrow> \<not> dumps_fails env body)
        \<and> network env (remote (world m))
             \<lparr>wire_verb = table_verb c, wire_target = bp @ table_path c,
               wire_json = table_body c\<rparr> = (Some r, n')
        \<and> \<not> followed r
      \<longrightarrow> (\<exists>rq. issued (world (snd (invoke (requests_session env rest) self c m))) =
                  issued (world m) @ [rq])
          \<and> remote (world (snd (invoke (requests_session env rest) self c m))) = n'
          \<and> fst (invoke (requests_session env rest) self c m) =
              (if 400 \<le> wire_status r \<and> wire_status r < 600
               then Inl (HTTPError (wire_status r))
               else (case wire_json_body r of
                       None \<Rightarrow> Inl JSONDecodeError | Some v \<Rightarrow> Inr v))"
  proof (intro impI, elim conjE)
    assume "scheme = ''http://'' \<or> scheme = ''https://''" "plain_authority a"
      "plain_base_path bp" "base_url self = scheme @ a @ bp"
      "list_all name_char (path_argument c)"
      "\<not> proxied env (base_url self @ table_path c)"
      "\<forall>body. table_body c = Some body \<longrightarrow> \<not> dumps_fails env body"
      "network env (remote (world m))
             \<lparr>wire_verb = table_verb c, wire_target = bp @ table_path c,
               wire_json = table_body c\<rparr> = (Some r, n')"
      "\<not> followed r"
    then have "invoke (requests_session env rest) self c m =
           (bind_err (raise_for_status (handed_back r)) (\<lambda>_. response_json (handed_back r)),
            \<lparr>calls = calls m @ [\<lparr>sc_verb = table_verb c, sc_url = base_url self @ table_path c,
                                  sc_headers = session_headers self, sc_json = table_body c\<rparr>],
             world = \<lparr>issued = issued (world m) @
                        [\<lparr>wire_verb = table_verb c, wire_target = bp @ table_path c,
                          wire_json = table_body c\<rparr>],
                      remote = n'\<rparr>\<rparr>)"
      by (intro invoke_plain) auto
    then show "(\<exists>rq. issued (world (snd (invoke (requests_session env rest) self c m))) =
                  issued (world m) @ [rq])
          \<and> remote (world (snd (invoke (requests_session env rest) self c m))) = n'
          \<and> fst (invoke (requests_session env rest) self c m) =
              (if 400 \<le> wire_status r \<and> wire_status r < 600
               then Inl (HTTPError (wire_status r))
               else (case wire_json_body r of
                       None \<Rightarrow> Inl JSONDecodeError | Some v \<Rightarrow> Inr v))"
      by (simp add: bind_err_def raise_for_status_def response_json_def handed_back_def)
  qed
  let ?made = "\<lparr>sc_verb = table_verb c, sc_url = base_url self @ table_path c,
                 sc_headers = session_headers self, sc_json = table_body c\<rparr>"
  have "calls (snd (invoke lib self c n)) = calls n @ [?made]
      \<and> world (snd (invoke lib self c n)) = snd (lib (world n) ?made)
      \<and> fst (invoke lib self c n) =
          (case fst (lib (world n) ?made) of
             Inl e \<Rightarrow> Inl e
           | Inr resp \<Rightarrow>
               if 400 \<le> status_code resp \<and> status_code resp < 600
               then Inl (HTTPError (status_code resp))
               else (case json_body resp of None \<Rightarrow> Inl JSONDecodeError | Some v \<Rightarrow> Inr v))
      \<and> (\<forall>resp v. fst (lib (world n) ?made) = Inr resp \<and> 200 \<le> status_code resp
             \<and> status_code resp < 300 \<and> json_body resp = Some v
           \<longrightarrow> fst (invoke lib self c n) = Inr v)"
    by (auto simp add: invoke_unfold Let_def bind_err_def raise_for_status_def response_json_def
          split: sum.splits)
  then have in_the_call: "\<exists>made. calls (snd (invoke lib self c n)) = calls n @ [made]
      \<and> world (snd (invoke lib self c n)) = snd (lib (world n) made)
      \<and> fst (invoke lib self c n) =
          (case fst (lib (world n) made) of
             Inl e \<Rightarrow> Inl e
           | Inr resp \<Rightarrow>
               if 400 \<le> status_code resp \<and> status_code resp < 600
               then Inl (HTTPError (status_code resp))
               else (case json_body resp of None \<Rightarrow> Inl JSONDecodeError | Some v \<Rightarrow> Inr v))
      \<and> (\<forall>resp v. fst (lib (world n) made) = Inr resp \<and> 200 \<le> status_code resp
             \<and> status_code resp < 300 \<and> json_body resp = Some v
           \<longrightarrow> fst (invoke lib self c n) = Inr v)"
    by (rule exI)
  from in_the_call on_the_wire show ?thesis by (rule conjI)
qed

theorem one_request_per_call_witness:
  "length (calls (snd (invoke (counting_library \<lparr>status_code = 503, json_body = None\<rparr>)
        (SnowRailClient_init None) Health_check \<lparr>calls = [], world = 0\<rparr>))) = 1
   \<and> world (snd (invoke (counting_library \<lparr>status_code = 503, json_body = None\<rparr>)
        (SnowRailClient_init None) Health_check \<lparr>calls = [], world = 0\<rparr>)) = 1
   \<and> fst (invoke (counting_library \<lparr>status_code = 503, json_body = None\<rparr>)
        (SnowRailClient_init None) Health_check \<lparr>calls = [], world = 0\<rparr>) = Inl (HTTPError 503)
   \<and> fst (invoke (counting_library
               \<lparr>status_code = 200, json_body = Some (PDict [(''paid'', PBool True)])\<rparr>)
        (SnowRailClient_init None) (Get_intent_status ''abc-1'') \<lparr>calls = [], world = 0\<rparr>) =
       Inr (PDict [(''paid'', PBool True)])
   \<and> length (issued (world (snd (invoke (requests_session (direct_env answer_ok) raising_library)
        (SnowRailClient_init None) (Get_intent_status ''abc-1'')
        \<lparr>calls = [], world = \<lparr>issued = [], remote = ()\<rparr>\<rparr>)))) = 1
   \<and> fst (invoke (requests_session (direct_env answer_ok) raising_library)
        (SnowRailClient_init None) (Get_intent_status ''abc-1'')
        \<lparr>calls = [], world = \<lparr>issued = [], remote = ()\<rparr>\<rparr>) = Inr (PDict [])"
proof -
  let ?lib = "counting_library \<lparr>status_code = 503, json_body = None\<rparr>"
  let ?n = "\<lparr>calls = [], world = 0::nat\<rparr>"
  let ?session = "requests_session (direct_env answer_ok) raising_library"
  let ?m = "\<lparr>calls = [], world = \<lparr>issued = [], remote = ()\<rparr>\<rparr>"
  let ?r = "\<lparr>wire_status = 200, wire_location = None, wire_json_body = Some (PDict [])\<rparr>"
  note at_health = one_request_per_call
    [of ?lib "SnowRailClient_init None" Health_check ?n "''http://''" "''localhost:3000''" "[]"
        "direct_env answer_ok" ?m ?r "()" raising_library]
  note at_status = one_request_per_call
    [of ?lib "SnowRailClient_init None" "Get_intent_status ''abc-1''" ?n "''http://''"
        "''localhost:3000''" "[]" "direct_env answer_ok" ?m ?r "()" raising_library]
  from at_health obtain made where
    "calls (snd (invoke ?lib (SnowRailClient_init None) Health_check ?n)) = [] @ [made]"
    "world (snd (invoke ?lib (SnowRailClient_init None) Health_check ?n)) =
       snd (?lib 0 made)"
    "fst (invoke ?lib (SnowRailClient_init None) Health_check ?n) =
          (case fst (?lib 0 made) of
             Inl e \<Rightarrow> Inl e
           | Inr resp \<Rightarrow>
               if 400 \<le> status_code resp \<and> status_code resp < 600
               then Inl (HTTPError (status_code resp))
               else (case json_body resp of None \<Rightarrow> Inl JSONDecodeError | Some v \<Rightarrow> Inr v))"
    by auto
  then have first: "length (calls (snd (invoke ?lib (SnowRailClient_init None) Health_check ?n))) = 1
     \<and> world (snd (invoke ?lib (SnowRailClient_init None) Health_check ?n)) = 1
     \<and> fst (invoke ?lib (SnowRailClient_init None) Health_check ?n) = Inl (HTTPError 503)"
    by (simp add: counting_library_def)
  let ?paid = "counting_library
                 \<lparr>status_code = 200, json_body = Some (PDict [(''paid'', PBool True)])\<rparr>"
  note at_paid = one_request_per_call
    [of ?paid "SnowRailClient_init None" "Get_intent_status ''abc-1''" ?n "''http://''"
        "''localhost:3000''" "[]" "direct_env answer_ok" ?m ?r "()" raising_library]
  from at_paid obtain called where
    "\<forall>resp v. fst (?paid 0 called) = Inr resp \<and> 200 \<le> status_code resp
         \<and> status_code resp < 300 \<and> json_body resp = Some v
       \<longrightarrow> fst (invoke ?paid (SnowRailClient_init None) (Get_intent_status ''abc-1'') ?n) =
             Inr v"
    by auto
  then have paid: "fst (invoke ?paid (SnowRailClient_init None) (Get_intent_status ''abc-1'') ?n) =
       Inr (PDict [(''paid'', PBool True)])"
    by (simp add: counting_library_def)
  have hyp: "(''http://'' = ''http://'' \<or> ''http://'' = ''https://'')
        \<and> plain_authority ''localhost:3000''
        \<and> plain_base_path [] \<and> base_url (SnowRailClient_init None) = ''http://'' @ ''localhost:3000'' @ []
        \<and> list_all name_char (path_argument (Get_intent_status ''abc-1''))
        \<and> \<not> proxied (direct_env answer_ok) (base_url (SnowRailClient_init None) @ table_path (Get_intent_status ''abc-1''))
        \<and> (\<forall>body. table_body (Get_intent_status ''abc-1'') = Some body \<longrightarrow> \<not> dumps_fails (direct_env answer_ok) body)
        \<and> network (direct_env answer_ok) (remote (world ?m))
             \<lparr>wire_verb = table_verb (Get_intent_status ''abc-1''),
               wire_target = [] @ table_path (Get_intent_status ''abc-1''),
               wire_json = table_body (Get_intent_status ''abc-1'')\<rparr> = (Some ?r, ())
        \<and> \<not> followed ?r"
    by (simp add: SnowRailClient_init_def py_rstrip_def plain_defs direct_env_def never_def
          answer_ok_def followed_def)
  from at_status hyp have
    "(\<exists>rq. issued (world (snd (invoke ?session (SnowRailClient_init None)
              (Get_intent_status ''abc-1'') ?m))) = issued (world ?m) @ [rq])
     \<and> fst (invoke ?session (SnowRailClient_init None) (Get_intent_status ''abc-1'') ?m) =
         (if 400 \<le> wire_status ?r \<and> wire_status ?r < 600
          then Inl (HTTPError (wire_status ?r))
          else (case wire_json_body ?r of None \<Rightarrow> Inl JSONDecodeError | Some v \<Rightarrow> Inr v))"
    by blast
  then have second:
    "length (issued (world (snd (invoke ?session (SnowRailClient_init None)
              (Get_intent_status ''abc-1'') ?m)))) = 1
     \<and> fst (invoke ?session (SnowRailClient_init None) (Get_intent_status ''abc-1'') ?m) =
         Inr (PDict [])"
    by auto
  from first paid second show ?thesis by simp
qed

text \<open>
  The library does not issue exactly one HTTP request for every call. A POST answered by
  a 302 is followed by a GET of the new location, without the body: two requests. And for
  a base URL without a scheme the library raises before it sends anything: no request.
\<close>

theorem not_one_http_request_counterexample:
  "issued (world (snd (validate_url
       (requests_session (direct_env answer_redirect) raising_library)
       (SnowRailClient_init None) ''https://api.stripe.com'' None
       \<lparr>calls = [], world = \<lparr>issued = [], remote = ()\<rparr>\<rparr>))) =
     [\<lparr>wire_verb = POST, wire_target = ''/v1/sentinel/validate'',
       wire_json = Some (PDict [(''url'', PStr ''https://api.stripe.com''),
                                (''amount'', PInt 100)])\<rparr>,
      \<lparr>wire_verb = GET, wire_target = ''/login'', wire_json = None\<rparr>]
   \<and> issued (world (snd (health_check
       (requests_session (direct_env answer_ok) raising_library)
       (SnowRailClient_init (Some ''example.com''))
       \<lparr>calls = [], world = \<lparr>issued = [], remote = ()\<rparr>\<rparr>))) = []
   \<and> fst (health_check
       (requests_session (direct_env answer_ok) raising_library)
       (SnowRailClient_init (Some ''example.com''))
       \<lparr>calls = [], world = \<lparr>issued = [], remote = ()\<rparr>\<rparr>) = Inl RequestException"
  by (simp add: method_defs Let_def SnowRailClient_init_def py_rstrip_def requests_session_def
        known_outcome_def bracket_free_def redirected_def redirect_verb_def plain_target_def
        plain_defs
        direct_env_def never_def answer_ok_def answer_redirect_def followed_def
        handed_back_def bind_err_def)

section \<open>Printing\<close>

lemma and_then_eval_expr [simp]:
  "and_then (eval_expr r) f out = (case r of Inl e \<Rightarrow> (Inl e, out) | Inr x \<Rightarrow> f x out)"
  by (simp add: and_then_def eval_expr_def split: sum.splits)

lemma and_then_for_each:
  "and_then (for_each body xs) f out =
     (case for_each body xs out of (Inl e, out') \<Rightarrow> (Inl e, out') | (Inr x, out') \<Rightarrow> f x out')"
  by (simp add: and_then_def)

lemma and_then_print_line:
  "write_error env out l = None \<Longrightarrow> and_then (print_line env l) f out = f () (out @ [l])"
  by (simp add: and_then_def print_line_def)

lemma and_then_print_refused:
  "write_error env out l = Some e \<Longrightarrow> and_then (print_line env l) f out = (Inl e, out)"
  by (simp add: and_then_def print_line_def)

lemma fst_and_then_iff:
  "fst (and_then m f out) = Inr y \<longleftrightarrow>
     (\<exists>x. fst (m out) = Inr x \<and> fst (f x (snd (m out))) = Inr y)"
  by (auto simp add: and_then_def split: prod.splits sum.splits)

lemma fst_and_then_unit_iff:
  "fst (and_then m f out) = Inr y \<longleftrightarrow>
     fst (m out) = Inr () \<and> fst (f () (snd (m out))) = Inr y"
  by (simp add: fst_and_then_iff)

lemma fst_and_then_eval_iff:
  "fst (and_then (eval_expr r) f out) = Inr y \<longleftrightarrow>
     (\<exists>x. r = Inr x \<and> fst (f x out) = Inr y)"
  by (cases r) (simp_all add: and_then_def eval_expr_def)

lemma fst_print_line_iff:
  "fst (print_line env l out) = Inr () \<longleftrightarrow> write_error env out l = None"
  by (simp add: print_line_def split: option.splits)

lemma dict_getitem_Inr: "dict_getitem d k = Inr v \<longleftrightarrow> map_of d k = Some v"
  by (simp add: dict_getitem_def split: option.splits)

lemma getitem_upper_Inr:
  "bind_err (dict_getitem d k) py_upper = Inr p \<longleftrightarrow>
     (\<exists>s. map_of d k = Some (PStr s) \<and> p = Upper s)"
proof (cases "map_of d k")
  case None
  then show ?thesis by (simp add: bind_err_def dict_getitem_def)
next
  case (Some v)
  then show ?thesis by (cases v) (auto simp add: bind_err_def dict_getitem_def)
qed

lemma getitem_format_Inr:
  "bind_err (dict_getitem d k) (py_format env) = Inr p \<longleftrightarrow>
     (\<exists>v. map_of d k = Some v \<and> format_error env v = None \<and> p = Fmt v)"
  by (auto simp add: bind_err_def dict_getitem_def py_format_def split: option.splits)

text \<open>
  What a run to the end tells, whatever the interpreter: every item of the loop over
  reasons and warnings was formatted, and every check had its three fields, the name and
  the score formatted.
\<close>

lemma print_item_done:
  "fst (print_item env v out) = Inr () \<Longrightarrow> format_error env v = None"
  by (auto simp add: print_item_def py_format_def split: option.splits)

lemma for_each_print_item_done:
  "fst (for_each (print_item env) xs out) = Inr () \<Longrightarrow>
     list_all (\<lambda>item. format_error env item = None) xs"
proof (induction xs arbitrary: out)
  case Nil
  then show ?case by simp
next
  case (Cons x xs)
  show ?case
  proof (cases "print_item env x out")
    case (Pair r out')
    then show ?thesis using Cons.IH[of out'] Cons.prems print_item_done[of env x out]
      by (cases r) auto
  qed
qed

lemma print_check_done:
  "fst (print_check env v out) = Inr () \<Longrightarrow> has_check_fields v \<and> check_formats env v"
  by (cases v)
     (auto simp add: print_check_def dict_getitem_def bind_err_def py_format_def
        field_formats_def split: option.splits)

lemma for_each_print_check_done:
  "fst (for_each (print_check env) xs out) = Inr () \<Longrightarrow>
     list_all has_check_fields xs \<and> list_all (check_formats env) xs"
proof (induction xs arbitrary: out)
  case Nil
  then show ?case by simp
next
  case (Cons x xs)
  show ?case
  proof (cases "print_check env x out")
    case (Pair r out')
    then show ?thesis using Cons.IH[of out'] Cons.prems print_check_done[of env x out]
      by (cases r) auto
  qed
qed

lemma section_done:
  assumes "fst ((if py_truthy (dict_get d k PNone)
         then and_then (print_line env [Lit title]) (\<lambda>_.
              and_then (eval_expr (dict_getitem d k)) (\<lambda>v.
              and_then (eval_expr (py_iter v)) (\<lambda>items. for_each (print_item env) items)))
         else eval_expr (Inr ())) out) = Inr ()"
  shows "section_ok d k \<and> section_formats env d k"
proof (cases "map_of d k")
  case None
  then show ?thesis by (simp add: section_ok_def section_formats_def)
next
  case (Some v)
  show ?thesis
  proof (cases "py_truthy v")
    case False
    then show ?thesis using Some by (simp add: section_ok_def section_formats_def)
  next
    case True
    with Some assms have run: "fst (and_then (print_line env [Lit title]) (\<lambda>_.
              and_then (eval_expr (dict_getitem d k)) (\<lambda>v.
              and_then (eval_expr (py_iter v)) (\<lambda>items. for_each (print_item env) items)))
              out) = Inr ()"
      by (simp add: dict_get_def)
    then obtain items where "py_iter v = Inr items"
      and "fst (for_each (print_item env) items (snd (print_line env [Lit title] out))) = Inr ()"
      using Some
      by (auto simp only: fst_and_then_unit_iff fst_and_then_eval_iff dict_getitem_Inr)
    then show ?thesis using Some for_each_print_item_done
      by (cases v) (auto simp add: section_ok_def section_formats_def)
  qed
qed

lemma checks_done:
  assumes "py_iter (dict_get d ''checks'' (PList [])) = Inr x"
    and "fst (for_each (print_check env) x out) = Inr ()"
  shows "checks_ok d \<and> checks_format env d"
  using assms for_each_print_check_done[OF assms(2)]
  by (auto simp add: checks_ok_def checks_format_def dict_get_def split: option.splits)

lemma shape_of_fields:
  assumes "map_of d ''url'' = Some a" "map_of d ''canPay'' = Some b"
    "map_of d ''trustScore'' = Some c" "map_of d ''risk'' = Some (PStr r)"
    "map_of d ''decision'' = Some (PStr s)" "map_of d ''duration'' = Some e"
  shows "has_required d"
  using assms by (simp add: has_required_def required_keys_def str_or_absent_def)

lemma completes_shape:
  assumes "fst (print_validation_result env d out) = Inr ()"
  shows "has_required d \<and> section_ok d ''blockedReasons'' \<and> section_ok d ''warnings''
       \<and> checks_ok d \<and> all_format env d"
proof -
  from assms have
    "\<exists>o1 o2 o3 o4.
      (\<exists>a. map_of d ''url'' = Some a \<and> format_error env a = None)
    \<and> (\<exists>a. map_of d ''canPay'' = Some a)
    \<and> (\<exists>a. map_of d ''trustScore'' = Some a \<and> format_error env a = None)
    \<and> (\<exists>s. map_of d ''risk'' = Some (PStr s))
    \<and> (\<exists>s. map_of d ''decision'' = Some (PStr s))
    \<and> (\<exists>a. map_of d ''duration'' = Some a \<and> format_error env a = None)
    \<and> fst ((if py_truthy (dict_get d ''blockedReasons'' PNone)
         then and_then (print_line env [Lit (CHR 0x0A # ''Blocked Reasons:'')]) (\<lambda>_.
              and_then (eval_expr (dict_getitem d ''blockedReasons'')) (\<lambda>v.
              and_then (eval_expr (py_iter v)) (\<lambda>items. for_each (print_item env) items)))
         else eval_expr (Inr ())) o1) = Inr ()
    \<and> fst ((if py_truthy (dict_get d ''warnings'' PNone)
         then and_then (print_line env [Lit (CHR 0x0A # ''Warnings:'')]) (\<lambda>_.
              and_then (eval_expr (dict_getitem d ''warnings'')) (\<lambda>v.
              and_then (eval_expr (py_iter v)) (\<lambda>items. for_each (print_item env) items)))
         else eval_expr (Inr ())) o2) = Inr ()
    \<and> (\<exists>x. py_iter (dict_get d ''checks'' (PList [])) = Inr x
         \<and> fst (for_each (print_check env) x o3) = Inr ())"
    unfolding print_validation_result_def
    by (simp only: fst_and_then_unit_iff fst_and_then_eval_iff getitem_format_Inr
          dict_getitem_Inr getitem_upper_Inr) blast
  then show ?thesis
    using section_done[of d "''blockedReasons''" env] section_done[of d "''warnings''" env]
      checks_done[of d _ env]
    by (auto simp add: all_format_def field_formats_def intro: shape_of_fields)
qed


text \<open>
  The other way round, on a standard output that takes every line: the loops run to the
  end when every item is formatted, and every check has its three fields, the name and
  the score formatted.
\<close>

lemma print_item_runs:
  assumes "\<And>out l. write_error env out l = None" and "format_error env v = None"
  shows "fst (print_item env v out) = Inr ()"
  using assms by (simp add: print_item_def py_format_def print_line_def)

lemma for_each_print_item_runs:
  assumes "\<And>out l. write_error env out l = None"
    and "list_all (\<lambda>item. format_error env item = None) xs"
  shows "fst (for_each (print_item env) xs out) = Inr ()"
  using assms(2)
proof (induction xs arbitrary: out)
  case Nil
  then show ?case by simp
next
  case (Cons x xs)
  show ?case
  proof (cases "print_item env x out")
    case (Pair r out')
    then show ?thesis
      using Cons.IH[of out'] Cons.prems print_item_runs[OF assms(1), of x out]
      by (cases r) auto
  qed
qed

lemma print_check_runs:
  assumes "\<And>out l. write_error env out l = None"
    and "has_check_fields v" and "check_formats env v"
  shows "fst (print_check env v out) = Inr ()"
  using assms
  by (cases v)
     (auto simp add: print_check_def dict_getitem_def bind_err_def py_format_def
        field_formats_def print_line_def)

lemma for_each_print_check_runs:
  assumes "\<And>out l. write_error env out l = None"
    and "list_all has_check_fields xs" and "list_all (check_formats env) xs"
  shows "fst (for_each (print_check env) xs out) = Inr ()"
  using assms(2,3)
proof (induction xs arbitrary: out)
  case Nil
  then show ?case by simp
next
  case (Cons x xs)
  show ?case
  proof (cases "print_check env x out")
    case (Pair r out')
    then show ?thesis
      using Cons.IH[of out'] Cons.prems print_check_runs[OF assms(1), of x out]
      by (cases r) auto
  qed
qed

lemma section_runs:
  assumes "\<And>out l. write_error env out l = None"
    and "section_ok d k" and "section_formats env d k"
  shows "fst ((if py_truthy (dict_get d k PNone)
         then and_then (print_line env [Lit title]) (\<lambda>_.
              and_then (eval_expr (dict_getitem d k)) (\<lambda>v.
              and_then (eval_expr (py_iter v)) (\<lambda>items. for_each (print_item env) items)))
         else eval_expr (Inr ())) out) = Inr ()"
proof (cases "map_of d k")
  case None
  then show ?thesis by (simp add: dict_get_def eval_expr_def)
next
  case (Some v)
  show ?thesis
  proof (cases "py_truthy v")
    case False
    then show ?thesis using Some by (simp add: dict_get_def eval_expr_def)
  next
    case True
    with Some assms(2) have "iterable v" by (simp add: section_ok_def)
    then obtain items where items: "py_iter v = Inr items" by (cases v) auto
    with Some True assms(3) have "list_all (\<lambda>item. format_error env item = None) items"
      by (simp add: section_formats_def)
    then have "fst (for_each (print_item env) items (out @ [[Lit title]])) = Inr ()"
      by (rule for_each_print_item_runs[OF assms(1)])
    then show ?thesis using Some True items
      by (simp add: dict_get_def dict_getitem_def and_then_print_line[OF assms(1)])
  qed
qed

lemma checks_run:
  assumes "\<And>out l. write_error env out l = None"
    and "checks_ok d" and "checks_format env d"
  shows "\<exists>x. py_iter (dict_get d ''checks'' (PList [])) = Inr x
         \<and> fst (for_each (print_check env) x out) = Inr ()"
proof (cases "map_of d ''checks''")
  case None
  then show ?thesis by (simp add: dict_get_def)
next
  case (Some v)
  with assms(2) obtain items where items: "py_iter v = Inr items"
    and fields: "list_all has_check_fields items"
    by (auto simp add: checks_ok_def split: sum.splits)
  from Some items assms(3) have "list_all (check_formats env) items"
    by (simp add: checks_format_def)
  with fields have "fst (for_each (print_check env) items out) = Inr ()"
    by (rule for_each_print_check_runs[OF assms(1)])
  then show ?thesis using Some items by (simp add: dict_get_def)
qed

lemma str_or_absent_cases:
  "str_or_absent d k \<Longrightarrow> map_of d k = None \<or> (\<exists>s. map_of d k = Some (PStr s))"
  by (cases "map_of d k") (auto simp add: str_or_absent_def elim: is_str.elims)

lemma fields_of_shape:
  assumes "has_required d"
  shows "(\<exists>a. map_of d ''url'' = Some a) \<and> (\<exists>a. map_of d ''canPay'' = Some a)
    \<and> (\<exists>a. map_of d ''trustScore'' = Some a) \<and> (\<exists>s. map_of d ''risk'' = Some (PStr s))
    \<and> (\<exists>s. map_of d ''decision'' = Some (PStr s)) \<and> (\<exists>a. map_of d ''duration'' = Some a)"
  using assms str_or_absent_cases[of d "''risk''"] str_or_absent_cases[of d "''decision''"]
  by (auto simp add: has_required_def required_keys_def)

lemma shape_completes:
  assumes w: "\<And>out l. write_error env out l = None"
    and "has_required d" and "section_ok d ''blockedReasons''" and "section_ok d ''warnings''"
    and "checks_ok d" and "all_format env d"
  shows "fst (print_validation_result env d out) = Inr ()"
proof -
  from assms(6) have fmt: "field_formats env d ''url''" "field_formats env d ''trustScore''"
    "field_formats env d ''duration''" "section_formats env d ''blockedReasons''"
    "section_formats env d ''warnings''" "checks_format env d"
    by (simp_all add: all_format_def)
  from fields_of_shape[OF assms(2)] fmt(1,2,3) have fields:
    "\<exists>a. map_of d ''url'' = Some a \<and> format_error env a = None"
    "\<exists>a. map_of d ''canPay'' = Some a"
    "\<exists>a. map_of d ''trustScore'' = Some a \<and> format_error env a = None"
    "\<exists>s. map_of d ''risk'' = Some (PStr s)"
    "\<exists>s. map_of d ''decision'' = Some (PStr s)"
    "\<exists>a. map_of d ''duration'' = Some a \<and> format_error env a = None"
    by (auto simp add: field_formats_def)
  note sections = section_runs[OF w assms(3) fmt(4)] section_runs[OF w assms(4) fmt(5)]
  note checks = checks_run[OF w assms(5) fmt(6)]
  show ?thesis
    unfolding print_validation_result_def
    by (simp only: fst_and_then_unit_iff fst_and_then_eval_iff getitem_format_Inr
          dict_getitem_Inr getitem_upper_Inr fst_print_line_iff w sections checks
          simp_thms ex_simps)
       (use fields in blast)
qed

text \<open>A missing key is reported by \<open>KeyError\<close>, the first one in reading order.\<close>

lemma missing_key_raises:
  assumes w: "\<And>out l. write_error env out l = None"
    and "field_formats env d ''url''" and "field_formats env d ''trustScore''"
    and "field_formats env d ''duration''"
    and "str_or_absent d ''risk''" and "str_or_absent d ''decision''"
    and "find (\<lambda>k. map_of d k = None) required_keys = Some k"
  shows "fst (print_validation_result env d out) = Inl (KeyError k)"
  using assms(2-4,7) str_or_absent_cases[OF assms(5)] str_or_absent_cases[OF assms(6)]
  by (auto simp add: required_keys_def print_validation_result_def dict_getitem_def
        bind_err_def py_format_def field_formats_def and_then_print_line[OF w]
        split: if_splits)

lemma some_key_missing:
  "\<not> list_all (\<lambda>k. map_of d k \<noteq> None) required_keys \<Longrightarrow>
     \<exists>k. find (\<lambda>k. map_of d k = None) required_keys = Some k"
  by (cases "find (\<lambda>k. map_of d k = None) required_keys")
     (auto simp add: find_None_iff list_all_iff)

lemma absent_ok:
  "map_of d ''blockedReasons'' = None \<Longrightarrow>
     section_ok d ''blockedReasons'' \<and> section_formats env d ''blockedReasons''"
  "map_of d ''warnings'' = None \<Longrightarrow>
     section_ok d ''warnings'' \<and> section_formats env d ''warnings''"
  "map_of d ''checks'' = None \<Longrightarrow> checks_ok d \<and> checks_format env d"
  by (simp_all add: section_ok_def checks_ok_def section_formats_def checks_format_def)


text \<open>
  C8. Whatever the interpreter, the function runs to the end only on a dictionary that
  holds the six keys \<open>url\<close>, \<open>canPay\<close>, \<open>trustScore\<close>, \<open>risk\<close>, \<open>decision\<close> and \<open>duration\<close>
  with strings under \<open>risk\<close> and \<open>decision\<close>, in which \<open>blockedReasons\<close> and \<open>warnings\<close>
  are absent, falsy or iterable and \<open>checks\<close> is absent or an iterable of dictionaries
  that each hold \<open>passed\<close>, \<open>name\<close> and \<open>score\<close>, and whose values to be formatted the
  interpreter can format. When standard output takes every line, it runs to the end on
  every such dictionary; in particular when the six keys are there and \<open>blockedReasons\<close>,
  \<open>warnings\<close> and \<open>checks\<close> are absent. When standard output takes every line, the values
  under \<open>url\<close>, \<open>trustScore\<close> and \<open>duration\<close> can be formatted where present, \<open>risk\<close> and
  \<open>decision\<close> are strings where present, and one of the six keys is missing, it raises
  \<open>KeyError\<close> for the first missing key in reading order. When standard output refuses
  the first line, it raises the exception of that write and nothing is written.
\<close>

theorem print_validation_result_outcome:
  "(fst (print_validation_result env d out) = Inr ()
      \<longrightarrow> has_required d \<and> section_ok d ''blockedReasons'' \<and> section_ok d ''warnings''
            \<and> checks_ok d \<and> all_format env d)
   \<and> ((\<forall>written l. write_error env written l = None)
        \<and> has_required d \<and> section_ok d ''blockedReasons'' \<and> section_ok d ''warnings''
        \<and> checks_ok d \<and> all_format env d
      \<longrightarrow> fst (print_validation_result env d out) = Inr ())
   \<and> ((\<forall>written l. write_error env written l = None)
        \<and> has_required d \<and> map_of d ''blockedReasons'' = None \<and> map_of d ''warnings'' = None
        \<and> map_of d ''checks'' = None \<and> field_formats env d ''url''
        \<and> field_formats env d ''trustScore'' \<and> field_formats env d ''duration''
      \<longrightarrow> fst (print_validation_result env d out) = Inr ())
   \<and> ((\<forall>written l. write_error env written l = None)
        \<and> field_formats env d ''url'' \<and> field_formats env d ''trustScore''
        \<and> field_formats env d ''duration''
        \<and> str_or_absent d ''risk'' \<and> str_or_absent d ''decision''
        \<and> \<not> list_all (\<lambda>k. map_of d k \<noteq> None) required_keys
      \<longrightarrow> (\<exists>k. find (\<lambda>k. map_of d k = None) required_keys = Some k
             \<and> fst (print_validation_result env d out) = Inl (KeyError k)))
   \<and> (write_error env out [Lit (CHR 0x0A # replicate 60 CHR ''='')] = Some e
      \<longrightarrow> print_validation_result env d out = (Inl e, out))"
proof -
  have only_on_shape: "fst (print_validation_result env d out) = Inr ()
      \<longrightarrow> has_required d \<and> section_ok d ''blockedReasons'' \<and> section_ok d ''warnings''
            \<and> checks_ok d \<and> all_format env d"
    using completes_shape by blast
  have on_shape: "(\<forall>written l. write_error env written l = None)
        \<and> has_required d \<and> section_ok d ''blockedReasons'' \<and> section_ok d ''warnings''
        \<and> checks_ok d \<and> all_format env d
      \<longrightarrow> fst (print_validation_result env d out) = Inr ()"
    using shape_completes[of env d out] by blast
  have without_optional: "(\<forall>written l. write_error env written l = None)
        \<and> has_required d \<and> map_of d ''blockedReasons'' = None \<and> map_of d ''warnings'' = None
        \<and> map_of d ''checks'' = None \<and> field_formats env d ''url''
        \<and> field_formats env d ''trustScore'' \<and> field_formats env d ''duration''
      \<longrightarrow> fst (print_validation_result env d out) = Inr ()"
  proof
    assume a: "(\<forall>written l. write_error env written l = None)
        \<and> has_required d \<and> map_of d ''blockedReasons'' = None \<and> map_of d ''warnings'' = None
        \<and> map_of d ''checks'' = None \<and> field_formats env d ''url''
        \<and> field_formats env d ''trustScore'' \<and> field_formats env d ''duration''"
    then have "all_format env d" using absent_ok[of d env] by (simp add: all_format_def)
    with a show "fst (print_validation_result env d out) = Inr ()"
      using absent_ok[of d env] shape_completes[of env d out] by blast
  qed
  have missing: "(\<forall>written l. write_error env written l = None)
        \<and> field_formats env d ''url'' \<and> field_formats env d ''trustScore''
        \<and> field_formats env d ''duration''
        \<and> str_or_absent d ''risk'' \<and> str_or_absent d ''decision''
        \<and> \<not> list_all (\<lambda>k. map_of d k \<noteq> None) required_keys
      \<longrightarrow> (\<exists>k. find (\<lambda>k. map_of d k = None) required_keys = Some k
             \<and> fst (print_validation_result env d out) = Inl (KeyError k))"
  proof
    assume a: "(\<forall>written l. write_error env written l = None)
        \<and> field_formats env d ''url'' \<and> field_formats env d ''trustScore''
        \<and> field_formats env d ''duration''
        \<and> str_or_absent d ''risk'' \<and> str_or_absent d ''decision''
        \<and> \<not> list_all (\<lambda>k. map_of d k \<noteq> None) required_keys"
    then obtain k where k: "find (\<lambda>k. map_of d k = None) required_keys = Some k"
      using some_key_missing by blast
    with a have "fst (print_validation_result env d out) = Inl (KeyError k)"
      using missing_key_raises[of env d k out] by blast
    with k show "\<exists>k. find (\<lambda>k. map_of d k = None) required_keys = Some k
             \<and> fst (print_validation_result env d out) = Inl (KeyError k)"
      by blast
  qed
  have refused: "write_error env out [Lit (CHR 0x0A # replicate 60 CHR ''='')] = Some e
      \<longrightarrow> print_validation_result env d out = (Inl e, out)"
    by (simp add: print_validation_result_def and_then_def print_line_def)
  from only_on_shape on_shape without_optional missing refused show ?thesis
    by (intro conjI)
qed

theorem print_validation_result_outcome_witness:
  "fst (print_validation_result plain_interpreter
         [(''url'', PStr ''https://api.stripe.com''), (''canPay'', PBool True),
          (''trustScore'', PInt 95), (''risk'', PStr ''low''), (''decision'', PStr ''allow''),
          (''duration'', PInt 12)] []) = Inr ()
   \<and> fst (print_validation_result plain_interpreter
         [(''url'', PStr ''https://api.stripe.com''), (''canPay'', PBool True),
          (''trustScore'', PInt 95), (''decision'', PStr ''allow''),
          (''duration'', PInt 12)] []) = Inl (KeyError ''risk'')
   \<and> print_validation_result closed_interpreter
         [(''url'', PStr ''https://api.stripe.com''), (''canPay'', PBool True),
          (''trustScore'', PInt 95), (''risk'', PStr ''low''), (''decision'', PStr ''allow''),
          (''duration'', PInt 12)] [] = (Inl ValueError, [])"
proof -
  let ?full = "[(''url'', PStr ''https://api.stripe.com''), (''canPay'', PBool True),
          (''trustScore'', PInt 95), (''risk'', PStr ''low''), (''decision'', PStr ''allow''),
          (''duration'', PInt 12)]"
  let ?short = "[(''url'', PStr ''https://api.stripe.com''), (''canPay'', PBool True),
          (''trustScore'', PInt 95), (''decision'', PStr ''allow''),
          (''duration'', PInt 12)]"
  have "fst (print_validation_result plain_interpreter ?full []) = Inr ()"
    using print_validation_result_outcome[of plain_interpreter ?full "[]"]
    by (simp add: plain_interpreter_def has_required_def required_keys_def str_or_absent_def
          section_ok_def checks_ok_def all_format_def field_formats_def section_formats_def
          checks_format_def)
  moreover have "fst (print_validation_result plain_interpreter ?short []) = Inl (KeyError ''risk'')"
    using print_validation_result_outcome[of plain_interpreter ?short "[]"]
    by (simp add: plain_interpreter_def required_keys_def str_or_absent_def field_formats_def)
  moreover have "print_validation_result closed_interpreter ?full [] = (Inl ValueError, [])"
    using print_validation_result_outcome[of closed_interpreter ?full "[]" ValueError]
    by (simp add: closed_interpreter_def)
  ultimately show ?thesis by simp
qed

text \<open>
  The six keys, with strings under \<open>risk\<close> and \<open>decision\<close>, are not enough to run to
  the end. On an interpreter that formats every value and a standard output that takes
  every line, a \<open>checks\<close> list that holds an empty dictionary makes the function raise
  \<open>KeyError\<close>. And with nothing but the six keys, on a standard output that cannot encode
  the check mark, the function raises \<open>UnicodeEncodeError\<close> at the line of \<open>canPay\<close>.
\<close>

theorem malformed_check_raises_counterexample:
  "has_required
     [(''url'', PStr ''https://api.stripe.com''), (''canPay'', PBool True),
      (''trustScore'', PInt 95), (''risk'', PStr ''low''), (''decision'', PStr ''allow''),
      (''duration'', PInt 12), (''checks'', PList [PDict []])]
   \<and> fst (print_validation_result plain_interpreter
       [(''url'', PStr ''https://api.stripe.com''), (''canPay'', PBool True),
        (''trustScore'', PInt 95), (''risk'', PStr ''low''), (''decision'', PStr ''allow''),
        (''duration'', PInt 12), (''checks'', PList [PDict []])] []) =
     Inl (KeyError ''passed'')
   \<and> has_required
     [(''url'', PStr ''https://api.stripe.com''), (''canPay'', PBool True),
      (''trustScore'', PInt 95), (''risk'', PStr ''low''), (''decision'', PStr ''allow''),
      (''duration'', PInt 12)]
   \<and> fst (print_validation_result ascii_interpreter
       [(''url'', PStr ''https://api.stripe.com''), (''canPay'', PBool True),
        (''trustScore'', PInt 95), (''risk'', PStr ''low''), (''decision'', PStr ''allow''),
        (''duration'', PInt 12)] []) =
     Inl UnicodeEncodeError"
  by (simp add: has_required_def required_keys_def str_or_absent_def
        print_validation_result_def dict_getitem_def dict_get_def bind_err_def py_format_def
        print_check_def and_then_for_each plain_interpreter_def ascii_interpreter_def
        and_then_print_line and_then_print_refused tick_def)

section \<open>Confirming an intent\<close>

lemma expected_payload_state [simp]:
  "expected_payload (i\<lparr>intent_state := s\<rparr>) = expected_payload i"
  by (simp add: expected_payload_def)

text \<open>
  C4. Confirm is idempotent. For an authorized, unexpired intent and a valid signature for
  it, where the settlement succeeds with receipt \<open>r\<close>: the first confirm returns \<open>r\<close>; a
  second confirm with the same intent id and signature, at any later time, returns \<open>r\<close>
  again and leaves the ledger as the first left it; and the two calls together add exactly
  one settlement.
\<close>

theorem confirm_idempotent:
  assumes "intents l iid = Some i" and "intent_state i = S_authorized"
    and "now1 \<le> expiresAt i"
    and "verify (expected_payload i) (intent_sender i) signature"
    and "settle i now1 = Some r"
  shows "fst (confirm verify settle now1 iid signature l) = Inr r
     \<and> fst (confirm verify settle now2 iid signature
              (snd (confirm verify settle now1 iid signature l))) = Inr r
     \<and> snd (confirm verify settle now2 iid signature
              (snd (confirm verify settle now1 iid signature l))) =
         snd (confirm verify settle now1 iid signature l)
     \<and> settlements (snd (confirm verify settle now2 iid signature
              (snd (confirm verify settle now1 iid signature l)))) =
         settlements l @ [(iid, r)]"
  using assms by (simp add: confirm_def set_state_def)

theorem confirm_idempotent_witness:
  "fst (confirm demo_verify demo_settle 30 ''i1'' ''good'' authorized_ledger) =
     Inr (demo_receipt\<lparr>confirmedAt := 30\<rparr>)
   \<and> fst (confirm demo_verify demo_settle 500 ''i1'' ''good''
        (snd (confirm demo_verify demo_settle 30 ''i1'' ''good'' authorized_ledger))) =
     Inr (demo_receipt\<lparr>confirmedAt := 30\<rparr>)
   \<and> settlements (snd (confirm demo_verify demo_settle 500 ''i1'' ''good''
        (snd (confirm demo_verify demo_settle 30 ''i1'' ''good'' authorized_ledger)))) =
     [(''i1'', demo_receipt\<lparr>confirmedAt := 30\<rparr>)]"
  using confirm_idempotent
    [of authorized_ledger "''i1''" "demo_intent\<lparr>intent_state := S_authorized\<rparr>" 30
        demo_verify "''good''" demo_settle "demo_receipt\<lparr>confirmedAt := 30\<rparr>" 500]
  by (simp add: confirm_def set_state_def authorized_ledger_def demo_intent_def
        demo_receipt_def demo_verify_def demo_settle_def)




end
